theory Spec2Isabelle
  imports Main "HOL-Library.AList" "HOL-Library.Sublist"
begin

section \<open>JavaScript values\<close>

text \<open>
  The handlers move untyped JSON between the tool caller and the remote REST API
  (\<^verbatim>\<open>Record<string, unknown>\<close>, the result of \<^verbatim>\<open>JSON.parse\<close>, the
  responses of the HTTP client).  A value is one of JavaScript's JSON-shaped values, with
  \<^verbatim>\<open>undefined\<close> kept apart from \<^verbatim>\<open>null\<close>.  An object is the list of its
  properties in insertion order, which is the order \<^verbatim>\<open>Object.keys\<close> reports for
  string keys.  Numbers are restricted to integers.
\<close>

datatype js_value =
    JUndefined
  | JNull
  | JBool bool
  | JNum int
  | JString string
  | JArray "js_value list"
  | JObject "(string \<times> js_value) list"

text \<open>Truthiness, as tested by \<^verbatim>\<open>!x\<close>, \<^verbatim>\<open>x || y\<close>, \<^verbatim>\<open>x ? a : b\<close>.\<close>

fun truthy :: "js_value \<Rightarrow> bool" where
  "truthy JUndefined = False"
| "truthy JNull = False"
| "truthy (JBool b) = b"
| "truthy (JNum n) = (n \<noteq> 0)"
| "truthy (JString s) = (s \<noteq> [])"
| "truthy (JArray xs) = True"
| "truthy (JObject ps) = True"

text \<open>
  What a handler can throw: an \<^verbatim>\<open>Error\<close> it builds itself with a message, the
  \<^verbatim>\<open>TypeError\<close> of a property read on \<^verbatim>\<open>undefined\<close> or \<^verbatim>\<open>null\<close>, or
  whatever a collaborator (HTTP client, child process, file system, JSON parser) throws.
\<close>

datatype 'x thrown =
    Error string
  | TypeError
  | Thrown 'x

text \<open>
  Property read \<^verbatim>\<open>v.k\<close>: a \<^verbatim>\<open>TypeError\<close> on \<^verbatim>\<open>undefined\<close> and
  \<^verbatim>\<open>null\<close>, the stored value on an object that has the key, \<^verbatim>\<open>undefined\<close>
  otherwise (own JSON properties only).
\<close>

fun get_prop :: "js_value \<Rightarrow> string \<Rightarrow> 'x thrown + js_value" where
  "get_prop JUndefined k = Inl TypeError"
| "get_prop JNull k = Inl TypeError"
| "get_prop (JObject ps) k = (case map_of ps k of Some v \<Rightarrow> Inr v | None \<Rightarrow> Inr JUndefined)"
| "get_prop v k = Inr JUndefined"

text \<open>Optional chaining \<^verbatim>\<open>v?.k\<close>: \<^verbatim>\<open>undefined\<close> when \<open>v\<close> is nullish.\<close>

fun get_prop_opt :: "js_value \<Rightarrow> string \<Rightarrow> js_value" where
  "get_prop_opt (JObject ps) k = (case map_of ps k of Some v \<Rightarrow> v | None \<Rightarrow> JUndefined)"
| "get_prop_opt v k = JUndefined"

text \<open>Truthiness of an optional string (\<^verbatim>\<open>undefined\<close> and the empty string are falsy).\<close>

definition str_truthy :: "string option \<Rightarrow> bool" where
  "str_truthy s = (case s of None \<Rightarrow> False | Some v \<Rightarrow> v \<noteq> [])"

text \<open>A string or \<^verbatim>\<open>undefined\<close> inside a template literal.\<close>

definition template :: "string option \<Rightarrow> string" where
  "template s = (case s of None \<Rightarrow> ''undefined'' | Some v \<Rightarrow> v)"

text \<open>An optional string as a property value.\<close>

definition opt_string_json :: "string option \<Rightarrow> js_value" where
  "opt_string_json s = (case s of None \<Rightarrow> JUndefined | Some v \<Rightarrow> JString v)"

section \<open>Tool results and the tool boundary\<close>

text \<open>
  An item of \<^verbatim>\<open>content\<close>; its fields \<^verbatim>\<open>type\<close> and \<^verbatim>\<open>text\<close> are
  \<open>item_type\<close> and \<open>item_text\<close> here.
\<close>

record content_item =
  item_type :: string
  item_text :: "string option"

record tool_result =
  content :: "content_item list"
  isError :: "bool option"

text \<open>
  The collaborators every handler uses: \<^verbatim>\<open>formatError\<close> of
  \<^verbatim>\<open>utils/errors.js\<close> and \<^verbatim>\<open>JSON.stringify(v, null, 2)\<close>, which yields
  \<^verbatim>\<open>undefined\<close> (here \<open>None\<close>) rather than a string on \<^verbatim>\<open>undefined\<close>.
\<close>

record 'x runtime =
  formatError :: "'x thrown \<Rightarrow> string"
  JSON_stringify :: "js_value \<Rightarrow> string option"

text \<open>
  A handler runs against the outside world \<open>'w\<close> (remote server, file system) and
  the model keeps a log \<open>'l\<close> of the calls it issued, in the order it issued them.
\<close>

record ('l, 'w) run_state =
  log :: "'l list"
  world :: "'w"

text \<open>A handler invocation starts with an empty log.\<close>

definition start :: "'w \<Rightarrow> ('l, 'w) run_state" where
  "start w = \<lparr>log = [], world = w\<rparr>"

type_synonym ('a, 'x, 'l, 'w) prog =
  "('l, 'w) run_state \<Rightarrow> ('x thrown + 'a) \<times> ('l, 'w) run_state"

definition ret :: "'a \<Rightarrow> ('a, 'x, 'l, 'w) prog" where
  "ret v st = (Inr v, st)"

definition throw :: "'x thrown \<Rightarrow> ('a, 'x, 'l, 'w) prog" where
  "throw e st = (Inl e, st)"

text \<open>Sequencing inside a \<^verbatim>\<open>try\<close> block: a throw skips everything after it.\<close>

definition bind :: "('a, 'x, 'l, 'w) prog \<Rightarrow> ('a \<Rightarrow> ('b, 'x, 'l, 'w) prog) \<Rightarrow> ('b, 'x, 'l, 'w) prog" where
  "bind m f st = (case m st of (Inl e, st') \<Rightarrow> (Inl e, st') | (Inr v, st') \<Rightarrow> f v st')"

text \<open>Lifting a pure, possibly throwing, computation.\<close>

definition lift :: "'x thrown + 'a \<Rightarrow> ('a, 'x, 'l, 'w) prog" where
  "lift r st = (r, st)"

text \<open>
  An awaited call \<open>c\<close> to a collaborator \<open>api\<close>: the world answers and moves on, and
  the call is logged together with its outcome.
\<close>

definition perform ::
  "('c \<Rightarrow> 'w \<Rightarrow> ('x thrown + 'r) \<times> 'w) \<Rightarrow> 'c \<Rightarrow> ('r, 'x, 'c \<times> ('x thrown + 'r), 'w) prog" where
  "perform api c st =
     (case api c (world st) of
        (r, w') \<Rightarrow> (r, \<lparr>log = log st @ [(c, r)], world = w'\<rparr>))"

text \<open>
  The two envelopes every handler returns:
  \<^verbatim>\<open>{ content: [{ type: 'text', text }] }\<close> and
  \<^verbatim>\<open>{ content: [{ type: 'text', text: `Error: ${formatError(error)}` }], isError: true }\<close>.
\<close>

definition ok_result :: "string option \<Rightarrow> tool_result" where
  "ok_result t = \<lparr>content = [\<lparr>item_type = ''text'', item_text = t\<rparr>], isError = None\<rparr>"

definition error_result :: "'x runtime \<Rightarrow> 'x thrown \<Rightarrow> tool_result" where
  "error_result rt e =
     \<lparr>content = [\<lparr>item_type = ''text'', item_text = Some (''Error: '' @ formatError rt e)\<rparr>],
      isError = Some True\<rparr>"

text \<open>
  The \<^verbatim>\<open>try { ... return ok } catch (error) { return err }\<close> frame that is the
  whole body of every handler; \<open>body\<close> is the \<^verbatim>\<open>try\<close> block and yields the text
  of the success envelope.
\<close>

definition tool_boundary ::
  "'x runtime \<Rightarrow> (string option, 'x, 'l, 'w) prog \<Rightarrow> ('l, 'w) run_state \<Rightarrow> tool_result \<times> ('l, 'w) run_state" where
  "tool_boundary rt body st =
     (case body st of
        (Inr t, st') \<Rightarrow> (ok_result t, st')
      | (Inl e, st') \<Rightarrow> (error_result rt e, st'))"

section \<open>The HTTP client and the wiki resource API (api/wiki.js)\<close>

text \<open>
  The HTTP client collaborator, as far as \<^verbatim>\<open>api/wiki.js\<close> uses it: the method, the
  path and the query parameters or the JSON body.  \<open>Get\<close> has \<open>None\<close> when the call
  passes no query object.
\<close>

datatype client_call =
    Get string "(string \<times> js_value) list option"
  | GetPaginated string "(string \<times> js_value) list"
  | Post string "(string \<times> js_value) list"
  | Put string "(string \<times> js_value) list"
  | Delete string

type_synonym ('x, 'w) http_client = "client_call \<Rightarrow> 'w \<Rightarrow> ('x thrown + js_value) \<times> 'w"

type_synonym 'x client_log = "client_call \<times> ('x thrown + js_value)"

definition WIKI_BASE :: string where
  "WIKI_BASE = ''/wiki/v1''"

text \<open>
  A referrer is \<^verbatim>\<open>{ type: 'member', member: { organizationMemberId } }\<close>; the type
  tag is a literal, so the member identifier is all there is to it.
\<close>

record referrer =
  organizationMemberId :: string

definition referrer_json :: "referrer \<Rightarrow> js_value" where
  "referrer_json r =
     JObject [(''type'', JString ''member''),
              (''member'', JObject [(''organizationMemberId'', JString (organizationMemberId r))])]"

record wiki_page_body =
  mimeType :: string
  content :: string

definition wiki_page_body_json :: "wiki_page_body \<Rightarrow> js_value" where
  "wiki_page_body_json b =
     JObject [(''mimeType'', JString (wiki_page_body.mimeType b)),
              (''content'', JString (wiki_page_body.content b))]"

text \<open>\<^verbatim>\<open>n || d\<close> on an optional number.\<close>

definition num_or :: "int option \<Rightarrow> int \<Rightarrow> int" where
  "num_or n d = (case n of None \<Rightarrow> d | Some v \<Rightarrow> if v \<noteq> 0 then v else d)"

subsection \<open>get-wiki-comment-list\<close>

text \<open>The input field \<^verbatim>\<open>size\<close> is \<open>size_field\<close> here.\<close>

record get_wiki_comment_list_input =
  wikiId :: string
  pageId :: string
  page :: "int option"
  size_field :: "int option"

definition getWikiPageComments ::
  "('x, 'w) http_client \<Rightarrow> get_wiki_comment_list_input \<Rightarrow> (js_value, 'x, 'x client_log, 'w) prog" where
  "getWikiPageComments client params =
     perform client
       (GetPaginated (WIKI_BASE @ ''/wikis/'' @ get_wiki_comment_list_input.wikiId params
                        @ ''/pages/'' @ get_wiki_comment_list_input.pageId params @ ''/comments'')
          [(''page'', JNum (num_or (page params) 0)), (''size'', JNum (num_or (size_field params) 20))])"

definition getWikiCommentList_try ::
  "'x runtime \<Rightarrow> ('x, 'w) http_client \<Rightarrow> get_wiki_comment_list_input \<Rightarrow> (string option, 'x, 'x client_log, 'w) prog" where
  "getWikiCommentList_try rt client args =
     bind (getWikiPageComments client args) (\<lambda>result. ret (JSON_stringify rt result))"

definition getWikiCommentListHandler ::
  "'x runtime \<Rightarrow> ('x, 'w) http_client \<Rightarrow> get_wiki_comment_list_input
     \<Rightarrow> ('x client_log, 'w) run_state \<Rightarrow> tool_result \<times> ('x client_log, 'w) run_state" where
  "getWikiCommentListHandler rt client args = tool_boundary rt (getWikiCommentList_try rt client args)"

subsection \<open>delete-wiki-comment\<close>

record delete_wiki_comment_input =
  wikiId :: string
  pageId :: string
  commentId :: string

definition deleteWikiPageComment ::
  "('x, 'w) http_client \<Rightarrow> string \<Rightarrow> string \<Rightarrow> string \<Rightarrow> (js_value, 'x, 'x client_log, 'w) prog" where
  "deleteWikiPageComment client wiki pg comment =
     perform client (Delete (WIKI_BASE @ ''/wikis/'' @ wiki @ ''/pages/'' @ pg @ ''/comments/'' @ comment))"

definition deleteWikiComment_try ::
  "'x runtime \<Rightarrow> ('x, 'w) http_client \<Rightarrow> delete_wiki_comment_input \<Rightarrow> (string option, 'x, 'x client_log, 'w) prog" where
  "deleteWikiComment_try rt client args =
     bind (deleteWikiPageComment client (delete_wiki_comment_input.wikiId args)
             (delete_wiki_comment_input.pageId args) (delete_wiki_comment_input.commentId args)) (\<lambda>_.
     ret (JSON_stringify rt
            (JObject [(''success'', JBool True), (''message'', JString ''Comment deleted successfully'')])))"

definition deleteWikiCommentHandler ::
  "'x runtime \<Rightarrow> ('x, 'w) http_client \<Rightarrow> delete_wiki_comment_input
     \<Rightarrow> ('x client_log, 'w) run_state \<Rightarrow> tool_result \<times> ('x client_log, 'w) run_state" where
  "deleteWikiCommentHandler rt client args = tool_boundary rt (deleteWikiComment_try rt client args)"

subsection \<open>update-wiki-comment\<close>

record update_wiki_comment_input =
  wikiId :: string
  pageId :: string
  commentId :: string
  content :: string

definition updateWikiPageComment ::
  "('x, 'w) http_client \<Rightarrow> update_wiki_comment_input \<Rightarrow> (js_value, 'x, 'x client_log, 'w) prog" where
  "updateWikiPageComment client params =
     perform client
       (Put (WIKI_BASE @ ''/wikis/'' @ update_wiki_comment_input.wikiId params
               @ ''/pages/'' @ update_wiki_comment_input.pageId params
               @ ''/comments/'' @ update_wiki_comment_input.commentId params)
            [(''body'', JObject [(''content'', JString (update_wiki_comment_input.content params))])])"

definition updateWikiComment_try ::
  "'x runtime \<Rightarrow> ('x, 'w) http_client \<Rightarrow> update_wiki_comment_input \<Rightarrow> (string option, 'x, 'x client_log, 'w) prog" where
  "updateWikiComment_try rt client args =
     bind (updateWikiPageComment client args) (\<lambda>_.
     ret (JSON_stringify rt
            (JObject [(''success'', JBool True), (''message'', JString ''Comment updated successfully'')])))"

definition updateWikiCommentHandler ::
  "'x runtime \<Rightarrow> ('x, 'w) http_client \<Rightarrow> update_wiki_comment_input
     \<Rightarrow> ('x client_log, 'w) run_state \<Rightarrow> tool_result \<times> ('x client_log, 'w) run_state" where
  "updateWikiCommentHandler rt client args = tool_boundary rt (updateWikiComment_try rt client args)"

subsection \<open>get-wiki-page-list\<close>

record get_wiki_page_list_input =
  wikiId :: string
  parentPageId :: "string option"

definition getWikiPages ::
  "('x, 'w) http_client \<Rightarrow> get_wiki_page_list_input \<Rightarrow> (js_value, 'x, 'x client_log, 'w) prog" where
  "getWikiPages client params =
     (let q0 = [];
          queryParams = (if str_truthy (get_wiki_page_list_input.parentPageId params)
                         then AList.update ''parentPageId''
                                (opt_string_json (get_wiki_page_list_input.parentPageId params)) q0
                         else q0)
      in perform client
           (Get (WIKI_BASE @ ''/wikis/'' @ get_wiki_page_list_input.wikiId params @ ''/pages'')
                (Some queryParams)))"

definition getWikiPageList_try ::
  "'x runtime \<Rightarrow> ('x, 'w) http_client \<Rightarrow> get_wiki_page_list_input \<Rightarrow> (string option, 'x, 'x client_log, 'w) prog" where
  "getWikiPageList_try rt client args =
     bind (getWikiPages client args) (\<lambda>result. ret (JSON_stringify rt result))"

definition getWikiPageListHandler ::
  "'x runtime \<Rightarrow> ('x, 'w) http_client \<Rightarrow> get_wiki_page_list_input
     \<Rightarrow> ('x client_log, 'w) run_state \<Rightarrow> tool_result \<times> ('x client_log, 'w) run_state" where
  "getWikiPageListHandler rt client args = tool_boundary rt (getWikiPageList_try rt client args)"

subsection \<open>get-wiki-comment\<close>

record get_wiki_comment_input =
  wikiId :: string
  pageId :: string
  commentId :: string

definition getWikiPageComment ::
  "('x, 'w) http_client \<Rightarrow> string \<Rightarrow> string \<Rightarrow> string \<Rightarrow> (js_value, 'x, 'x client_log, 'w) prog" where
  "getWikiPageComment client wiki pg comment =
     perform client (Get (WIKI_BASE @ ''/wikis/'' @ wiki @ ''/pages/'' @ pg @ ''/comments/'' @ comment) None)"

definition getWikiComment_try ::
  "'x runtime \<Rightarrow> ('x, 'w) http_client \<Rightarrow> get_wiki_comment_input \<Rightarrow> (string option, 'x, 'x client_log, 'w) prog" where
  "getWikiComment_try rt client args =
     bind (getWikiPageComment client (get_wiki_comment_input.wikiId args)
             (get_wiki_comment_input.pageId args) (get_wiki_comment_input.commentId args)) (\<lambda>result.
     ret (JSON_stringify rt result))"

definition getWikiCommentHandler ::
  "'x runtime \<Rightarrow> ('x, 'w) http_client \<Rightarrow> get_wiki_comment_input
     \<Rightarrow> ('x client_log, 'w) run_state \<Rightarrow> tool_result \<times> ('x client_log, 'w) run_state" where
  "getWikiCommentHandler rt client args = tool_boundary rt (getWikiComment_try rt client args)"

subsection \<open>create-wiki-comment\<close>

record create_wiki_comment_input =
  wikiId :: string
  pageId :: string
  content :: string

definition createWikiPageComment ::
  "('x, 'w) http_client \<Rightarrow> create_wiki_comment_input \<Rightarrow> (js_value, 'x, 'x client_log, 'w) prog" where
  "createWikiPageComment client params =
     perform client
       (Post (WIKI_BASE @ ''/wikis/'' @ create_wiki_comment_input.wikiId params
                @ ''/pages/'' @ create_wiki_comment_input.pageId params @ ''/comments'')
             [(''body'', JObject [(''content'', JString (create_wiki_comment_input.content params))])])"

definition createWikiComment_try ::
  "'x runtime \<Rightarrow> ('x, 'w) http_client \<Rightarrow> create_wiki_comment_input \<Rightarrow> (string option, 'x, 'x client_log, 'w) prog" where
  "createWikiComment_try rt client args =
     bind (createWikiPageComment client args) (\<lambda>result. ret (JSON_stringify rt result))"

definition createWikiCommentHandler ::
  "'x runtime \<Rightarrow> ('x, 'w) http_client \<Rightarrow> create_wiki_comment_input
     \<Rightarrow> ('x client_log, 'w) run_state \<Rightarrow> tool_result \<times> ('x client_log, 'w) run_state" where
  "createWikiCommentHandler rt client args = tool_boundary rt (createWikiComment_try rt client args)"

subsection \<open>get-wiki-page\<close>

record get_wiki_page_input =
  pageId :: string
  wikiId :: "string option"

definition getWikiPage ::
  "('x, 'w) http_client \<Rightarrow> string \<Rightarrow> (js_value, 'x, 'x client_log, 'w) prog" where
  "getWikiPage client pg = perform client (Get (WIKI_BASE @ ''/pages/'' @ pg) None)"

definition getWikiPageByWikiId ::
  "('x, 'w) http_client \<Rightarrow> string \<Rightarrow> string \<Rightarrow> (js_value, 'x, 'x client_log, 'w) prog" where
  "getWikiPageByWikiId client wiki pg =
     perform client (Get (WIKI_BASE @ ''/wikis/'' @ wiki @ ''/pages/'' @ pg) None)"

definition getWikiPage_try ::
  "'x runtime \<Rightarrow> ('x, 'w) http_client \<Rightarrow> get_wiki_page_input \<Rightarrow> (string option, 'x, 'x client_log, 'w) prog" where
  "getWikiPage_try rt client args =
     bind (if str_truthy (get_wiki_page_input.wikiId args)
           then getWikiPageByWikiId client (template (get_wiki_page_input.wikiId args)) (get_wiki_page_input.pageId args)
           else getWikiPage client (get_wiki_page_input.pageId args)) (\<lambda>result.
     ret (JSON_stringify rt result))"

definition getWikiPageHandler ::
  "'x runtime \<Rightarrow> ('x, 'w) http_client \<Rightarrow> get_wiki_page_input
     \<Rightarrow> ('x client_log, 'w) run_state \<Rightarrow> tool_result \<times> ('x client_log, 'w) run_state" where
  "getWikiPageHandler rt client args = tool_boundary rt (getWikiPage_try rt client args)"

subsection \<open>create-wiki-page\<close>

record create_wiki_page_input =
  wikiId :: string
  subject :: string
  content :: string
  parentPageId :: "string option"
  attachFileIds :: "string list option"
  referrers :: "referrer list option"

text \<open>\<^verbatim>\<open>WikiPageCreateParams\<close>, the argument of \<^verbatim>\<open>wikiApi.createWikiPage\<close>.\<close>

record wiki_page_create_params =
  wikiId :: string
  subject :: string
  body :: wiki_page_body
  parentPageId :: "string option"
  attachFileIds :: "string list option"
  referrers :: "referrer list option"

text \<open>
  An array is truthy whenever it is there, so \<^verbatim>\<open>if (params.attachFileIds)\<close> and
  \<^verbatim>\<open>if (params.referrers)\<close> test presence; \<^verbatim>\<open>if (params.parentPageId)\<close> tests a string.
\<close>

definition createWikiPage ::
  "('x, 'w) http_client \<Rightarrow> wiki_page_create_params \<Rightarrow> (js_value, 'x, 'x client_log, 'w) prog" where
  "createWikiPage client params =
     (let b0 = [(''subject'', JString (wiki_page_create_params.subject params)),
                (''body'', wiki_page_body_json (wiki_page_create_params.body params))];
          b1 = (if str_truthy (wiki_page_create_params.parentPageId params)
                then AList.update ''parentPageId''
                       (opt_string_json (wiki_page_create_params.parentPageId params)) b0
                else b0);
          b2 = (case wiki_page_create_params.attachFileIds params of
                  None \<Rightarrow> b1 | Some ids \<Rightarrow> AList.update ''attachFileIds'' (JArray (map JString ids)) b1);
          requestBody = (case wiki_page_create_params.referrers params of
                  None \<Rightarrow> b2 | Some rs \<Rightarrow> AList.update ''referrers'' (JArray (map referrer_json rs)) b2)
      in perform client
           (Post (WIKI_BASE @ ''/wikis/'' @ wiki_page_create_params.wikiId params @ ''/pages'') requestBody))"

definition createWikiPage_try ::
  "'x runtime \<Rightarrow> ('x, 'w) http_client \<Rightarrow> create_wiki_page_input \<Rightarrow> (string option, 'x, 'x client_log, 'w) prog" where
  "createWikiPage_try rt client args =
     bind (createWikiPage client
             \<lparr>wiki_page_create_params.wikiId = create_wiki_page_input.wikiId args,
              wiki_page_create_params.subject = create_wiki_page_input.subject args,
              wiki_page_create_params.body =
                \<lparr>wiki_page_body.mimeType = ''text/x-markdown'',
                 wiki_page_body.content = create_wiki_page_input.content args\<rparr>,
              wiki_page_create_params.parentPageId = create_wiki_page_input.parentPageId args,
              wiki_page_create_params.attachFileIds = create_wiki_page_input.attachFileIds args,
              wiki_page_create_params.referrers = create_wiki_page_input.referrers args\<rparr>) (\<lambda>result.
     ret (JSON_stringify rt result))"

definition createWikiPageHandler ::
  "'x runtime \<Rightarrow> ('x, 'w) http_client \<Rightarrow> create_wiki_page_input
     \<Rightarrow> ('x client_log, 'w) run_state \<Rightarrow> tool_result \<times> ('x client_log, 'w) run_state" where
  "createWikiPageHandler rt client args = tool_boundary rt (createWikiPage_try rt client args)"

subsection \<open>delete-wiki-page-file\<close>

record delete_wiki_page_file_input =
  wikiId :: string
  pageId :: string
  fileId :: string

text \<open>
  \<^verbatim>\<open>wikiApi.deleteWikiPageFile(wikiId, pageId, fileId)\<close> is not among the functions of
  \<^verbatim>\<open>api/wiki.js\<close> at hand, so it is a collaborator of its own.
\<close>

datatype wiki_file_call =
    DeleteWikiPageFile string string string

type_synonym ('x, 'w) wiki_file_api = "wiki_file_call \<Rightarrow> 'w \<Rightarrow> ('x thrown + js_value) \<times> 'w"

definition deleteWikiPageFile_try ::
  "'x runtime \<Rightarrow> ('x, 'w) wiki_file_api \<Rightarrow> delete_wiki_page_file_input
     \<Rightarrow> (string option, 'x, wiki_file_call \<times> ('x thrown + js_value), 'w) prog" where
  "deleteWikiPageFile_try rt wikiApi args =
     bind (perform wikiApi
             (DeleteWikiPageFile (delete_wiki_page_file_input.wikiId args)
                (delete_wiki_page_file_input.pageId args) (delete_wiki_page_file_input.fileId args))) (\<lambda>_.
     ret (JSON_stringify rt
            (JObject [(''success'', JBool True),
                      (''message'', JString (''File '' @ delete_wiki_page_file_input.fileId args
                                             @ '' successfully deleted from wiki page.''))])))"

definition deleteWikiPageFileHandler ::
  "'x runtime \<Rightarrow> ('x, 'w) wiki_file_api \<Rightarrow> delete_wiki_page_file_input
     \<Rightarrow> (wiki_file_call \<times> ('x thrown + js_value), 'w) run_state
     \<Rightarrow> tool_result \<times> (wiki_file_call \<times> ('x thrown + js_value), 'w) run_state" where
  "deleteWikiPageFileHandler rt wikiApi args = tool_boundary rt (deleteWikiPageFile_try rt wikiApi args)"

section \<open>Task tools (create-task, update-task)\<close>

text \<open>
  The schemas of both task tools.  A member is \<^verbatim>\<open>{ id, type }\<close> with the type one of
  \<^verbatim>\<open>'member'\<close>, \<^verbatim>\<open>'group'\<close>, \<^verbatim>\<open>'email'\<close>; its fields are \<open>member_id\<close> and
  \<open>member_type\<close> here.  The priority \<^verbatim>\<open>'none'\<close> is \<open>NoPriority\<close>.
\<close>

datatype member_type = Member | Group | Email

record member_ref =
  member_id :: string
  member_type :: member_type

datatype mime_type = text_x_markdown | text_html

record task_body =
  mimeType :: mime_type
  content :: string

datatype priority = Highest | High | Normal | Low | Lowest | NoPriority

datatype 'a nullable = Null | NotNull 'a

fun mime_type_json :: "mime_type \<Rightarrow> js_value" where
  "mime_type_json text_x_markdown = JString ''text/x-markdown''"
| "mime_type_json text_html = JString ''text/html''"

definition task_body_json :: "task_body \<Rightarrow> js_value" where
  "task_body_json b = JObject [(''mimeType'', mime_type_json (mimeType b)), (''content'', JString (task_body.content b))]"

fun priority_json :: "priority \<Rightarrow> js_value" where
  "priority_json Highest = JString ''highest''"
| "priority_json High = JString ''high''"
| "priority_json Normal = JString ''normal''"
| "priority_json Low = JString ''low''"
| "priority_json Lowest = JString ''lowest''"
| "priority_json NoPriority = JString ''none''"

fun nullable_string_json :: "string nullable \<Rightarrow> js_value" where
  "nullable_string_json Null = JNull"
| "nullable_string_json (NotNull s) = JString s"

text \<open>
  Modelled from the spec: \<^verbatim>\<open>transformMembers\<close> of
  \<^verbatim>\<open>utils/member-transform.js\<close> is imported by the handler but its file is not part
  of the sources at hand.  The specification says that the users payload is built from
  both lists, ``defaulting an unsupplied side to empty''; how a supplied list is
  rewritten for the API is left open, so it is the parameter \<open>convert\<close>.
\<close>

definition transformMembers :: "(member_ref list \<Rightarrow> js_value) \<Rightarrow> member_ref list option \<Rightarrow> js_value" where
  "transformMembers convert ms = (case ms of None \<Rightarrow> JArray [] | Some xs \<Rightarrow> convert xs)"

subsection \<open>create-task\<close>

record create_task_input =
  projectId :: string
  parentPostId :: "string option"
  isDraft :: "bool option"
  subject :: string
  body :: "task_body option"
  assignees :: "member_ref list option"
  cc :: "member_ref list option"
  dueDate :: "string option"
  milestoneId :: "string option"
  tagIds :: "string list option"
  priority :: "priority option"

text \<open>\<^verbatim>\<open>projectsApi.createTask\<close> and \<^verbatim>\<open>createDraftTask\<close>, with their one argument.\<close>

datatype create_call =
    CreateTask js_value
  | CreateDraftTask js_value

type_synonym ('x, 'w) create_api = "create_call \<Rightarrow> 'w \<Rightarrow> ('x thrown + js_value) \<times> 'w"

definition opt_json :: "('a \<Rightarrow> js_value) \<Rightarrow> 'a option \<Rightarrow> js_value" where
  "opt_json f x = (case x of None \<Rightarrow> JUndefined | Some v \<Rightarrow> f v)"

definition createTask_apiParams :: "(member_ref list \<Rightarrow> js_value) \<Rightarrow> create_task_input \<Rightarrow> js_value" where
  "createTask_apiParams convert args =
     JObject [(''projectId'', JString (projectId args)),
              (''parentPostId'', opt_string_json (parentPostId args)),
              (''subject'', JString (subject args)),
              (''body'', opt_json task_body_json (body args)),
              (''users'', JObject [(''to'', transformMembers convert (assignees args)),
                                   (''cc'', transformMembers convert (cc args))]),
              (''dueDate'', opt_string_json (dueDate args)),
              (''milestoneId'', opt_string_json (milestoneId args)),
              (''tagIds'', opt_json (\<lambda>ts. JArray (map JString ts)) (tagIds args)),
              (''priority'', opt_json priority_json (priority args))]"

text \<open>
  \<^verbatim>\<open>args.isDraft || false\<close> selects the branch; the draft branch reads
  \<^verbatim>\<open>result.id\<close> and \<^verbatim>\<open>result.url\<close>.
\<close>

definition createTask_try ::
  "'x runtime \<Rightarrow> ('x, 'w) create_api \<Rightarrow> (member_ref list \<Rightarrow> js_value) \<Rightarrow> create_task_input
     \<Rightarrow> (string option, 'x, create_call \<times> ('x thrown + js_value), 'w) prog" where
  "createTask_try rt projectsApi convert args =
     (let draft = (case isDraft args of None \<Rightarrow> False | Some b \<Rightarrow> b);
          apiParams = createTask_apiParams convert args
      in if draft
         then bind (perform projectsApi (CreateDraftTask apiParams)) (\<lambda>result.
              bind (lift (get_prop result ''id'')) (\<lambda>ident.
              ret (JSON_stringify rt
                     (JObject [(''id'', ident),
                               (''url'', get_prop_opt result ''url''),
                               (''message'', JString ''Draft task created successfully. Open the URL in your browser to continue editing.'')]))))
         else bind (perform projectsApi (CreateTask apiParams)) (\<lambda>result.
              ret (JSON_stringify rt result)))"

definition createTaskHandler ::
  "'x runtime \<Rightarrow> ('x, 'w) create_api \<Rightarrow> (member_ref list \<Rightarrow> js_value) \<Rightarrow> create_task_input
     \<Rightarrow> (create_call \<times> ('x thrown + js_value), 'w) run_state
     \<Rightarrow> tool_result \<times> (create_call \<times> ('x thrown + js_value), 'w) run_state" where
  "createTaskHandler rt projectsApi convert args =
     tool_boundary rt (createTask_try rt projectsApi convert args)"

subsection \<open>update-task\<close>

text \<open>
  \<^verbatim>\<open>UpdateTaskInput\<close>: an optional field is \<open>None\<close> when the key is absent
  (\<^verbatim>\<open>undefined\<close>); \<open>milestoneId\<close> is \<^verbatim>\<open>.nullable().optional()\<close>, so it has the
  three states absent, \<^verbatim>\<open>null\<close> and a string.
\<close>

record update_task_input =
  projectId :: string
  taskId :: string
  subject :: "string option"
  body :: "task_body option"
  assignees :: "member_ref list option"
  cc :: "member_ref list option"
  dueDate :: "string option"
  milestoneId :: "string nullable option"
  tagIds :: "string list option"
  priority :: "priority option"
  workflowId :: "string option"
  parentPostId :: "string option"

text \<open>
  Step 1 of \<^verbatim>\<open>updateTaskHandler\<close>: \<^verbatim>\<open>updateParams\<close> starts empty and receives
  one assignment \<^verbatim>\<open>updateParams.k = v\<close> per field that is \<^verbatim>\<open>!== undefined\<close>, in
  the order of the source.
\<close>

definition buildUpdateParams ::
  "(member_ref list \<Rightarrow> js_value) \<Rightarrow> update_task_input \<Rightarrow> (string \<times> js_value) list" where
  "buildUpdateParams convert args =
     (let p0 = [];
          p1 = (case subject args of None \<Rightarrow> p0 | Some s \<Rightarrow> AList.update ''subject'' (JString s) p0);
          p2 = (case body args of None \<Rightarrow> p1 | Some b \<Rightarrow> AList.update ''body'' (task_body_json b) p1);
          p3 = (case dueDate args of None \<Rightarrow> p2 | Some d \<Rightarrow> AList.update ''dueDate'' (JString d) p2);
          p4 = (case milestoneId args of None \<Rightarrow> p3 | Some m \<Rightarrow> AList.update ''milestoneId'' (nullable_string_json m) p3);
          p5 = (case tagIds args of None \<Rightarrow> p4 | Some ts \<Rightarrow> AList.update ''tagIds'' (JArray (map JString ts)) p4);
          p6 = (case priority args of None \<Rightarrow> p5 | Some p \<Rightarrow> AList.update ''priority'' (priority_json p) p5)
      in if assignees args \<noteq> None \<or> cc args \<noteq> None
         then AList.update ''users''
                (JObject [(''to'', transformMembers convert (assignees args)),
                          (''cc'', transformMembers convert (cc args))]) p6
         else p6)"

text \<open>
  The four functions of \<^verbatim>\<open>api/projects.js\<close> the handler awaits.  Note the argument
  order of \<^verbatim>\<open>getTaskDetails(taskId, projectId)\<close>.
\<close>

datatype task_call =
    UpdateTask string string "(string \<times> js_value) list"
  | SetTaskWorkflow string string string
  | SetParentPost string string string
  | GetTaskDetails string string

type_synonym ('x, 'w) projects_api = "task_call \<Rightarrow> 'w \<Rightarrow> ('x thrown + js_value) \<times> 'w"

type_synonym 'x task_log = "task_call \<times> ('x thrown + js_value)"

text \<open>The \<^verbatim>\<open>try\<close> block of \<^verbatim>\<open>updateTaskHandler\<close>, steps 2 to 5.\<close>

definition updateTask_try ::
  "'x runtime \<Rightarrow> ('x, 'w) projects_api \<Rightarrow> (member_ref list \<Rightarrow> js_value) \<Rightarrow> update_task_input
     \<Rightarrow> (string option, 'x, 'x task_log, 'w) prog" where
  "updateTask_try rt projectsApi convert args =
     (let updateParams = buildUpdateParams convert args in
      bind (if length updateParams > 0
            then perform projectsApi (UpdateTask (projectId args) (taskId args) updateParams)
            else ret JNull) (\<lambda>result.
      bind (case workflowId args of
              Some w \<Rightarrow> perform projectsApi (SetTaskWorkflow (projectId args) (taskId args) w)
            | None \<Rightarrow> ret JUndefined) (\<lambda>_.
      bind (case parentPostId args of
              Some pp \<Rightarrow> perform projectsApi (SetParentPost (projectId args) (taskId args) pp)
            | None \<Rightarrow> ret JUndefined) (\<lambda>_.
      bind (if \<not> truthy result
            then perform projectsApi (GetTaskDetails (taskId args) (projectId args))
            else ret result) (\<lambda>result.
      ret (JSON_stringify rt result))))))"

definition updateTaskHandler ::
  "'x runtime \<Rightarrow> ('x, 'w) projects_api \<Rightarrow> (member_ref list \<Rightarrow> js_value) \<Rightarrow> update_task_input
     \<Rightarrow> ('x task_log, 'w) run_state \<Rightarrow> tool_result \<times> ('x task_log, 'w) run_state" where
  "updateTaskHandler rt projectsApi convert args =
     tool_boundary rt (updateTask_try rt projectsApi convert args)"

text \<open>
  The orchestration as the specification words it: the sub-calls an invocation is meant
  to issue, in the fixed order fields, workflow, parent.
\<close>

definition sub_calls :: "(member_ref list \<Rightarrow> js_value) \<Rightarrow> update_task_input \<Rightarrow> task_call list" where
  "sub_calls convert args =
     (if buildUpdateParams convert args = [] then []
      else [UpdateTask (projectId args) (taskId args) (buildUpdateParams convert args)])
     @ (case workflowId args of None \<Rightarrow> [] | Some w \<Rightarrow> [SetTaskWorkflow (projectId args) (taskId args) w])
     @ (case parentPostId args of None \<Rightarrow> [] | Some pp \<Rightarrow> [SetParentPost (projectId args) (taskId args) pp])"

text \<open>
  Issuing a list of calls strictly one after the other: each call meets the world the
  previous one left behind, and the first failure ends the sequence.
\<close>

fun run_seq :: "('c \<Rightarrow> 'w \<Rightarrow> ('x thrown + 'r) \<times> 'w) \<Rightarrow> 'c list \<Rightarrow> 'w \<Rightarrow> ('c \<times> ('x thrown + 'r)) list \<times> 'w" where
  "run_seq api [] w = ([], w)"
| "run_seq api (c # cs) w =
     (case api c w of
        (Inl e, w') \<Rightarrow> ([(c, Inl e)], w')
      | (Inr v, w') \<Rightarrow> (case run_seq api cs w' of (l, w'') \<Rightarrow> ((c, Inr v) # l, w'')))"

section \<open>Wiki page update (update-wiki-page)\<close>

record update_wiki_page_input =
  wikiId :: string
  pageId :: string
  subject :: "string option"
  content :: "string option"
  referrers :: "referrer list nullable option"

text \<open>\<^verbatim>\<open>WikiPageUpdateParams\<close>, the argument of \<^verbatim>\<open>wikiApi.updateWikiPage\<close>.\<close>

record wiki_page_update_params =
  wikiId :: string
  pageId :: string
  subject :: "string option"
  body :: "wiki_page_body option"
  referrers :: "referrer list nullable option"

fun referrers_json :: "referrer list nullable \<Rightarrow> js_value" where
  "referrers_json Null = JNull"
| "referrers_json (NotNull rs) = JArray (map referrer_json rs)"

text \<open>\<^verbatim>\<open>updateWikiPage\<close> of \<^verbatim>\<open>api/wiki.js\<close>: the request body, then the PUT.\<close>

definition updateWikiPage_requestBody :: "wiki_page_update_params \<Rightarrow> (string \<times> js_value) list" where
  "updateWikiPage_requestBody params =
     (let b0 = [];
          b1 = (case wiki_page_update_params.subject params of
                  None \<Rightarrow> b0 | Some s \<Rightarrow> AList.update ''subject'' (JString s) b0);
          b2 = (case wiki_page_update_params.body params of
                  None \<Rightarrow> b1 | Some b \<Rightarrow> AList.update ''body'' (wiki_page_body_json b) b1)
      in (case wiki_page_update_params.referrers params of
            None \<Rightarrow> b2 | Some rs \<Rightarrow> AList.update ''referrers'' (referrers_json rs) b2))"

definition updateWikiPage ::
  "('x, 'w) http_client \<Rightarrow> wiki_page_update_params \<Rightarrow> (js_value, 'x, 'x client_log, 'w) prog" where
  "updateWikiPage client params =
     perform client
       (Put (WIKI_BASE @ ''/wikis/'' @ wiki_page_update_params.wikiId params
               @ ''/pages/'' @ wiki_page_update_params.pageId params)
            (updateWikiPage_requestBody params))"

text \<open>
  The argument the handler builds; \<^verbatim>\<open>args.content ? {...} : undefined\<close> tests the
  truthiness of an optional string, which is false when it is absent and when it is empty.
\<close>

definition updateWikiPage_params :: "update_wiki_page_input \<Rightarrow> wiki_page_update_params" where
  "updateWikiPage_params args =
     \<lparr>wiki_page_update_params.wikiId = update_wiki_page_input.wikiId args,
      wiki_page_update_params.pageId = update_wiki_page_input.pageId args,
      wiki_page_update_params.subject = update_wiki_page_input.subject args,
      wiki_page_update_params.body =
        (case update_wiki_page_input.content args of
           Some c \<Rightarrow> if c \<noteq> [] then Some \<lparr>wiki_page_body.mimeType = ''text/x-markdown'', wiki_page_body.content = c\<rparr>
                     else None
         | None \<Rightarrow> None),
      wiki_page_update_params.referrers = update_wiki_page_input.referrers args\<rparr>"

definition updateWikiPage_try ::
  "'x runtime \<Rightarrow> ('x, 'w) http_client \<Rightarrow> update_wiki_page_input \<Rightarrow> (string option, 'x, 'x client_log, 'w) prog" where
  "updateWikiPage_try rt client args =
     bind (updateWikiPage client (updateWikiPage_params args)) (\<lambda>_.
     ret (JSON_stringify rt
            (JObject [(''success'', JBool True), (''message'', JString ''Wiki page updated successfully'')])))"

definition updateWikiPageHandler ::
  "'x runtime \<Rightarrow> ('x, 'w) http_client \<Rightarrow> update_wiki_page_input
     \<Rightarrow> ('x client_log, 'w) run_state \<Rightarrow> tool_result \<times> ('x client_log, 'w) run_state" where
  "updateWikiPageHandler rt client args = tool_boundary rt (updateWikiPage_try rt client args)"

section \<open>The Node.js platform\<close>

type_synonym bytes = "nat list"

text \<open>
  The two shapes of \<^verbatim>\<open>curl\<close> command line the upload handlers run through
  \<^verbatim>\<open>execAsync\<close>, each with the URL, the API token of the \<^verbatim>\<open>Authorization\<close>
  header and the file of the multipart form:
  \<^item> \<open>CurlProbe\<close> is \<^verbatim>\<open>curl -s -X POST url ... -w '\n%{http_code}\n%{redirect_url}' -o /dev/null\<close>,
    which discards the body and prints a line break, the status code, a line break and
    the redirect target;
  \<^item> \<open>CurlPost\<close> is the same request without \<^verbatim>\<open>-w\<close> and \<^verbatim>\<open>-o\<close>, which prints
    the response body.
\<close>

datatype curl_command =
    CurlProbe string string string
  | CurlPost string string string

type_synonym 'x curl_log = "curl_command \<times> ('x thrown + string)"

text \<open>
  What the file-transfer handlers take from the platform: \<^verbatim>\<open>process.env\<close>,
  \<^verbatim>\<open>fs\<close>, \<^verbatim>\<open>path\<close>, \<^verbatim>\<open>child_process.exec\<close>, \<^verbatim>\<open>JSON.parse\<close>,
  the \<^verbatim>\<open>ToString\<close> conversion of template literals and of \<^verbatim>\<open>new Error(m)\<close>,
  \<^verbatim>\<open>decodeURIComponent\<close> and base64 encoding of a buffer.
  \<open>isDirectory p\<close> is \<^verbatim>\<open>fs.statSync(p).isDirectory()\<close>; \<open>mkdirSync\<close> is
  called with \<^verbatim>\<open>{ recursive: true }\<close>.
\<close>

record ('x, 'w) node =
  DOORAY_API_TOKEN :: "string option"
  DOORAY_API_BASE_URL :: "string option"
  existsSync :: "string \<Rightarrow> 'w \<Rightarrow> bool"
  isDirectory :: "string \<Rightarrow> 'w \<Rightarrow> 'x thrown + bool"
  mkdirSync :: "string \<Rightarrow> 'w \<Rightarrow> ('x thrown + unit) \<times> 'w"
  writeFileSync :: "string \<Rightarrow> bytes \<Rightarrow> 'w \<Rightarrow> ('x thrown + unit) \<times> 'w"
  execAsync :: "curl_command \<Rightarrow> 'w \<Rightarrow> ('x thrown + string) \<times> 'w"
  JSON_parse :: "string \<Rightarrow> 'x thrown + js_value"
  path_basename :: "string \<Rightarrow> string"
  path_dirname :: "string \<Rightarrow> string"
  path_join :: "string \<Rightarrow> string \<Rightarrow> string"
  toString :: "js_value \<Rightarrow> string"
  decodeURIComponent :: "string \<Rightarrow> 'x thrown + string"
  toBase64 :: "bytes \<Rightarrow> string"

text \<open>Reading the world without changing it (\<^verbatim>\<open>fs.existsSync\<close>, \<^verbatim>\<open>fs.statSync\<close>).\<close>

definition reads :: "('w \<Rightarrow> 'x thrown + 'a) \<Rightarrow> ('a, 'x, 'l, 'w) prog" where
  "reads f st = (f (world st), st)"

section \<open>String helpers of JavaScript\<close>

text \<open>
  \<^verbatim>\<open>String.prototype.trim\<close> strips white space and line terminators from both
  ends; of these the ASCII ones are tab, line feed, vertical tab, form feed, carriage
  return and space.
\<close>

definition is_js_space :: "char \<Rightarrow> bool" where
  "is_js_space c = (c = CHR 0x09 \<or> c = CHR 0x0A \<or> c = CHR 0x0B \<or> c = CHR 0x0C \<or> c = CHR 0x0D \<or> c = CHR 0x20)"

definition trim :: "string \<Rightarrow> string" where
  "trim s = rev (dropWhile is_js_space (rev (dropWhile is_js_space s)))"

text \<open>\<^verbatim>\<open>s.split(sep)\<close> for a one-character separator; the empty string gives \<^verbatim>\<open>['']\<close>.\<close>

fun split :: "char \<Rightarrow> string \<Rightarrow> string list" where
  "split sep [] = [[]]"
| "split sep (c # cs) =
     (if c = sep then [] # split sep cs
      else (case split sep cs of
              x # xs \<Rightarrow> (c # x) # xs
            | [] \<Rightarrow> [[c]]))"

text \<open>Array read \<^verbatim>\<open>xs[i]\<close>: \<^verbatim>\<open>undefined\<close> outside the array, also at \<open>-1\<close>.\<close>

definition js_index :: "'a list \<Rightarrow> int \<Rightarrow> 'a option" where
  "js_index xs i = (if 0 \<le> i \<and> i < int (length xs) then Some (xs ! nat i) else None)"

text \<open>\<^verbatim>\<open>a || b\<close> on an optional string.\<close>

definition or_else :: "string option \<Rightarrow> string \<Rightarrow> string" where
  "or_else s d = (case s of None \<Rightarrow> d | Some v \<Rightarrow> if v \<noteq> [] then v else d)"

section \<open>File upload (upload-wiki-file, upload-wiki-page-file)\<close>

record upload_wiki_file_input =
  wikiId :: string
  filePath :: string

record upload_wiki_page_file_input =
  wikiId :: string
  pageId :: string
  filePath :: string

text \<open>
  The response of the second request is \<^verbatim>\<open>{ header: { isSuccessful, resultMessage }, result }\<close>:
  \<^verbatim>\<open>if (!response.header?.isSuccessful) throw new Error(response.header?.resultMessage || 'Upload failed');
  result = response.result\<close>.
\<close>

definition check_envelope :: "('x, 'w) node \<Rightarrow> js_value \<Rightarrow> 'x thrown + js_value" where
  "check_envelope nd response =
     (case get_prop response ''header'' of
        Inl e \<Rightarrow> Inl e
      | Inr header \<Rightarrow>
          if \<not> truthy (get_prop_opt header ''isSuccessful'')
          then (let m = get_prop_opt header ''resultMessage''
                in Inl (Error (if truthy m then toString nd m else ''Upload failed'')))
          else get_prop response ''result'')"

text \<open>
  The success text: \<^verbatim>\<open>result.id\<close> and the other property reads, then
  \<^verbatim>\<open>JSON.stringify\<close> of the summary object.  \<open>tail\<close> is what follows the quoted
  file name in the message.
\<close>

definition upload_summary ::
  "'x runtime \<Rightarrow> ('x, 'w) node \<Rightarrow> string \<Rightarrow> string \<Rightarrow> js_value \<Rightarrow> 'x thrown + string option" where
  "upload_summary rt nd fileName tail result =
     (case get_prop result ''id'' of
        Inl e \<Rightarrow> Inl e
      | Inr ident \<Rightarrow>
          (let name = (if truthy (get_prop_opt result ''name'') then get_prop_opt result ''name''
                       else JString fileName)
           in Inr (JSON_stringify rt
                (JObject [(''success'', JBool True),
                          (''fileId'', ident),
                          (''attachFileId'', get_prop_opt result ''attachFileId''),
                          (''fileName'', name),
                          (''mimeType'', get_prop_opt result ''mimeType''),
                          (''size'', get_prop_opt result ''size''),
                          (''message'', JString (''File '' @ [CHR 0x22] @ toString nd name @ [CHR 0x22] @ tail))]))))"

text \<open>
  The \<^verbatim>\<open>try\<close> block shared, word for word, by \<^verbatim>\<open>uploadWikiFileHandler\<close> and
  \<^verbatim>\<open>uploadWikiPageFileHandler\<close>; they differ only in the endpoint built from the
  base URL (\<open>endpoint\<close>) and in the tail of the success message.
\<close>

definition upload_try ::
  "'x runtime \<Rightarrow> ('x, 'w) node \<Rightarrow> (string \<Rightarrow> string) \<Rightarrow> string \<Rightarrow> string
     \<Rightarrow> (string option, 'x, 'x curl_log, 'w) prog" where
  "upload_try rt nd endpoint file tail =
     (let apiToken = DOORAY_API_TOKEN nd in
      if \<not> str_truthy apiToken
      then throw (Error ''DOORAY_API_TOKEN environment variable is required'')
      else
      bind (reads (\<lambda>w. Inr (existsSync nd file w))) (\<lambda>found.
      if \<not> found
      then throw (Error (''File not found: '' @ file))
      else
      (let fileName = path_basename nd file;
           baseUrl = or_else (DOORAY_API_BASE_URL nd) ''https://api.dooray.com'';
           apiUrl = endpoint baseUrl
       in
       bind (perform (execAsync nd) (CurlProbe apiUrl (template apiToken) file)) (\<lambda>stdout.
       (let step1Lines = split (CHR 0x0A) (trim stdout);
            httpCode = js_index step1Lines (int (length step1Lines) - 2);
            redirectUrl = js_index step1Lines (int (length step1Lines) - 1)
        in
        if httpCode = Some ''307'' \<and> str_truthy redirectUrl
        then
          bind (perform (execAsync nd) (CurlPost (template redirectUrl) (template apiToken) file)) (\<lambda>out.
          bind (lift (JSON_parse nd out)) (\<lambda>response.
          bind (lift (check_envelope nd response)) (\<lambda>result.
          lift (upload_summary rt nd fileName tail result))))
        else if httpCode = Some ''200'' \<or> httpCode = Some ''201''
        then
          bind (perform (execAsync nd) (CurlPost apiUrl (template apiToken) file)) (\<lambda>out.
          bind (lift (JSON_parse nd out)) (\<lambda>response.
          bind (lift (check_envelope nd response)) (\<lambda>result.
          lift (upload_summary rt nd fileName tail result))))
        else throw (Error (''Unexpected HTTP status: '' @ template httpCode)))))))"

definition uploadWikiFileHandler ::
  "'x runtime \<Rightarrow> ('x, 'w) node \<Rightarrow> upload_wiki_file_input
     \<Rightarrow> ('x curl_log, 'w) run_state \<Rightarrow> tool_result \<times> ('x curl_log, 'w) run_state" where
  "uploadWikiFileHandler rt nd args =
     tool_boundary rt
       (upload_try rt nd
          (\<lambda>baseUrl. baseUrl @ ''/wiki/v1/wikis/'' @ upload_wiki_file_input.wikiId args @ ''/files'')
          (upload_wiki_file_input.filePath args)
          '' successfully uploaded to wiki. Use attachFileId when creating a wiki page with attachments.'')"

definition uploadWikiPageFileHandler ::
  "'x runtime \<Rightarrow> ('x, 'w) node \<Rightarrow> upload_wiki_page_file_input
     \<Rightarrow> ('x curl_log, 'w) run_state \<Rightarrow> tool_result \<times> ('x curl_log, 'w) run_state" where
  "uploadWikiPageFileHandler rt nd args =
     tool_boundary rt
       (upload_try rt nd
          (\<lambda>baseUrl. baseUrl @ ''/wiki/v1/wikis/'' @ upload_wiki_page_file_input.wikiId args
                       @ ''/pages/'' @ upload_wiki_page_file_input.pageId args @ ''/files'')
          (upload_wiki_page_file_input.filePath args)
          '' successfully uploaded to wiki page.'')"

section \<open>File download (download-wiki-page-file, download-wiki-attach-file)\<close>

record download_wiki_page_file_input =
  wikiId :: string
  pageId :: string
  fileId :: string
  savePath :: "string option"

record download_wiki_attach_file_input =
  wikiId :: string
  attachFileId :: string
  savePath :: "string option"

text \<open>What \<^verbatim>\<open>wikiApi.downloadWikiPageFile\<close> and \<^verbatim>\<open>downloadWikiAttachFile\<close> resolve to.\<close>

record download_result =
  data :: bytes
  contentType :: js_value
  contentLength :: js_value
  contentDisposition :: "string option"

datatype download_call =
    DownloadWikiPageFile string string string
  | DownloadWikiAttachFile string string

type_synonym ('x, 'w) download_api = "download_call \<Rightarrow> 'w \<Rightarrow> ('x thrown + download_result) \<times> 'w"

text \<open>The effects of a download, as logged: the GET and the writes to the file system.\<close>

datatype io_event =
    Download download_call
  | Mkdir string
  | WriteFile string bytes

definition effect :: "io_event \<Rightarrow> ('w \<Rightarrow> ('x thrown + 'r) \<times> 'w) \<Rightarrow> ('r, 'x, io_event, 'w) prog" where
  "effect ev f st =
     (case f (world st) of
        (r, w') \<Rightarrow> (r, \<lparr>log = log st @ [ev], world = w'\<rparr>))"

text \<open>
  The regular expression \<^verbatim>\<open>/filename[^;=\n]*=((['"]).*?\2|[^;\n]*)/\<close> of
  \<^verbatim>\<open>extractFilename\<close>, matched at the start of a string; the result is capture
  group 1.  After the literal \<^verbatim>\<open>filename\<close> the class \<^verbatim>\<open>[^;=\n]*\<close> cannot run
  over an equals sign, so the match needs the equals sign right after the longest run.
  Then the first alternative is a quote, the shortest run of characters other than line
  terminators, and the same quote again; failing that, the second alternative takes the
  longest run without semicolon and line feed.
\<close>

definition is_quote :: "char \<Rightarrow> bool" where
  "is_quote c = (c = CHR 0x27 \<or> c = CHR 0x22)"

definition is_line_terminator :: "char \<Rightarrow> bool" where
  "is_line_terminator c = (c = CHR 0x0A \<or> c = CHR 0x0D)"

definition filename_value :: "string \<Rightarrow> string" where
  "filename_value s =
     (case s of
        q # t \<Rightarrow>
          if is_quote q \<and> dropWhile (\<lambda>c. c \<noteq> q) t \<noteq> []
               \<and> list_all (\<lambda>c. \<not> is_line_terminator c) (takeWhile (\<lambda>c. c \<noteq> q) t)
          then q # takeWhile (\<lambda>c. c \<noteq> q) t @ [q]
          else takeWhile (\<lambda>c. c \<noteq> CHR '';'' \<and> c \<noteq> CHR 0x0A) s
      | [] \<Rightarrow> [])"

definition filename_match_here :: "string \<Rightarrow> string option" where
  "filename_match_here s =
     (if take 8 s = ''filename''
      then (case dropWhile (\<lambda>c. c \<noteq> CHR '';'' \<and> c \<noteq> CHR ''='' \<and> c \<noteq> CHR 0x0A) (drop 8 s) of
              c # rest \<Rightarrow> if c = CHR ''='' then Some (filename_value rest) else None
            | [] \<Rightarrow> None)
      else None)"

text \<open>\<^verbatim>\<open>String.prototype.match\<close> without the \<^verbatim>\<open>g\<close> flag: the leftmost match.\<close>

fun filename_match :: "string \<Rightarrow> string option" where
  "filename_match [] = filename_match_here []"
| "filename_match (c # cs) =
     (case filename_match_here (c # cs) of
        Some g \<Rightarrow> Some g
      | None \<Rightarrow> filename_match cs)"

definition extractFilename :: "('x, 'w) node \<Rightarrow> string option \<Rightarrow> string option" where
  "extractFilename nd header =
     (if \<not> str_truthy header then None
      else (case filename_match (template header) of
              Some g \<Rightarrow>
                (let filename = filter (\<lambda>c. \<not> is_quote c) g
                 in (case decodeURIComponent nd filename of
                       Inr decoded \<Rightarrow> Some decoded
                     | Inl e \<Rightarrow> Some filename))
            | None \<Rightarrow> None))"

definition endsWith_slash :: "string \<Rightarrow> bool" where
  "endsWith_slash s = (s \<noteq> [] \<and> last s = CHR ''/'')"

text \<open>
  The \<^verbatim>\<open>try\<close> block shared, word for word, by \<^verbatim>\<open>downloadWikiPageFileHandler\<close>
  and \<^verbatim>\<open>downloadWikiAttachFileHandler\<close>; they differ in the API call, in the name
  of the identifier in the result (\<open>idKey\<close>, \<open>ident\<close>) and in the prefix of the
  generated file name.
\<close>

definition download_try ::
  "'x runtime \<Rightarrow> ('x, 'w) node \<Rightarrow> ('x, 'w) download_api \<Rightarrow> download_call \<Rightarrow> string \<Rightarrow> string \<Rightarrow> string
     \<Rightarrow> string option \<Rightarrow> (string option, 'x, io_event, 'w) prog" where
  "download_try rt nd api call idKey ident generatedPrefix saveTo =
     bind (effect (Download call) (api call)) (\<lambda>result.
     (let filename = extractFilename nd (contentDisposition result) in
      if str_truthy saveTo
      then
        (let targetPath = template saveTo in
         bind (reads (\<lambda>w. if endsWith_slash targetPath then Inr True
                           else if existsSync nd targetPath w then isDirectory nd targetPath w
                           else Inr False)) (\<lambda>isDir.
         bind (if isDir
               then bind (reads (\<lambda>w. Inr (existsSync nd targetPath w))) (\<lambda>found.
                    bind (if \<not> found then effect (Mkdir targetPath) (mkdirSync nd targetPath) else ret ()) (\<lambda>_.
                    ret (path_join nd targetPath (or_else filename (generatedPrefix @ ident)))))
               else bind (reads (\<lambda>w. Inr (existsSync nd (path_dirname nd targetPath) w))) (\<lambda>found.
                    bind (if \<not> found
                          then effect (Mkdir (path_dirname nd targetPath)) (mkdirSync nd (path_dirname nd targetPath))
                          else ret ()) (\<lambda>_.
                    ret targetPath))) (\<lambda>targetPath.
         bind (effect (WriteFile targetPath (data result)) (writeFileSync nd targetPath (data result))) (\<lambda>_.
         ret (JSON_stringify rt
                (JObject [(''success'', JBool True),
                          (idKey, JString ident),
                          (''filename'', opt_string_json filename),
                          (''contentType'', contentType result),
                          (''contentLength'', contentLength result),
                          (''savedTo'', JString targetPath),
                          (''message'', JString (''File saved to '' @ [CHR 0x22] @ targetPath @ [CHR 0x22]
                                                  @ '' ('' @ toString nd (contentLength result) @ '' bytes)''))]))))))
      else
        ret (JSON_stringify rt
               (JObject [(''success'', JBool True),
                         (idKey, JString ident),
                         (''filename'', opt_string_json filename),
                         (''contentType'', contentType result),
                         (''contentLength'', contentLength result),
                         (''base64Data'', JString (toBase64 nd (data result)))]))))"

definition downloadWikiPageFileHandler ::
  "'x runtime \<Rightarrow> ('x, 'w) node \<Rightarrow> ('x, 'w) download_api \<Rightarrow> download_wiki_page_file_input
     \<Rightarrow> (io_event, 'w) run_state \<Rightarrow> tool_result \<times> (io_event, 'w) run_state" where
  "downloadWikiPageFileHandler rt nd api args =
     tool_boundary rt
       (download_try rt nd api
          (DownloadWikiPageFile (download_wiki_page_file_input.wikiId args)
             (download_wiki_page_file_input.pageId args) (fileId args))
          ''fileId'' (fileId args) ''wiki-file-'' (download_wiki_page_file_input.savePath args))"

definition downloadWikiAttachFileHandler ::
  "'x runtime \<Rightarrow> ('x, 'w) node \<Rightarrow> ('x, 'w) download_api \<Rightarrow> download_wiki_attach_file_input
     \<Rightarrow> (io_event, 'w) run_state \<Rightarrow> tool_result \<times> (io_event, 'w) run_state" where
  "downloadWikiAttachFileHandler rt nd api args =
     tool_boundary rt
       (download_try rt nd api
          (DownloadWikiAttachFile (download_wiki_attach_file_input.wikiId args) (attachFileId args))
          ''attachFileId'' (attachFileId args) ''wiki-attach-'' (download_wiki_attach_file_input.savePath args))"

section \<open>Envelope shapes, as the specification words them\<close>

definition is_success_envelope :: "tool_result \<Rightarrow> bool" where
  "is_success_envelope res =
     (isError res = None \<and>
      (case tool_result.content res of
         [it] \<Rightarrow> item_type it = ''text''
       | _ \<Rightarrow> False))"

definition is_error_envelope :: "tool_result \<Rightarrow> bool" where
  "is_error_envelope res =
     (isError res = Some True \<and>
      (case tool_result.content res of
         [it] \<Rightarrow> item_type it = ''text'' \<and>
                 (case item_text it of Some t \<Rightarrow> take 7 t = ''Error: '' | None \<Rightarrow> False)
       | _ \<Rightarrow> False))"

text \<open>
  What the tool boundary owes its caller: the success envelope around the text the
  \<^verbatim>\<open>try\<close> block produced, or the error envelope around the formatted error it
  threw.
\<close>

definition envelope_of :: "'x runtime \<Rightarrow> 'x thrown + string option \<Rightarrow> tool_result \<Rightarrow> bool" where
  "envelope_of rt outcome res =
     (case outcome of
        Inr t \<Rightarrow> res = ok_result t \<and> is_success_envelope res \<and> \<not> is_error_envelope res
      | Inl e \<Rightarrow> res = error_result rt e \<and> is_error_envelope res \<and> \<not> is_success_envelope res)"

section \<open>A concrete environment for running the handlers\<close>

text \<open>
  A small world to evaluate the handlers in: collaborators that throw strings, a remote
  API that counts the calls it has served, and a file system that is the list of its paths,
  each flagged as directory or file.
\<close>

definition demo_runtime :: "string runtime" where
  "demo_runtime =
     \<lparr>formatError = (\<lambda>e. case e of Error m \<Rightarrow> m | TypeError \<Rightarrow> ''TypeError'' | Thrown m \<Rightarrow> m),
      JSON_stringify = (\<lambda>v. case v of JUndefined \<Rightarrow> None | JObject ps \<Rightarrow> Some ''{}'' | _ \<Rightarrow> Some ''json'')\<rparr>"

definition demo_convert :: "member_ref list \<Rightarrow> js_value" where
  "demo_convert ms = JArray (map (\<lambda>m. JString (member_id m)) ms)"

definition demo_task :: js_value where
  "demo_task = JObject [(''id'', JString ''2'')]"

definition demo_api :: "(string, nat) projects_api" where
  "demo_api c n = (Inr demo_task, Suc n)"

definition demo_api_workflow_fails :: "(string, nat) projects_api" where
  "demo_api_workflow_fails c n =
     (case c of
        SetTaskWorkflow p t w \<Rightarrow> (Inl (Thrown ''workflow rejected''), Suc n)
      | _ \<Rightarrow> (Inr demo_task, Suc n))"

definition demo_args :: update_task_input where
  "demo_args =
     \<lparr>projectId = ''1'', taskId = ''2'', update_task_input.subject = None,
      update_task_input.body = None, assignees = None,
      cc = None, dueDate = None, milestoneId = None, tagIds = None, priority = None,
      workflowId = None, parentPostId = None\<rparr>"

definition demo_client :: "(string, nat) http_client" where
  "demo_client c n = (Inr JNull, Suc n)"

definition demo_client_fails :: "(string, nat) http_client" where
  "demo_client_fails c n = (Inl (Thrown ''500 Internal Server Error''), Suc n)"

definition demo_page_args :: update_wiki_page_input where
  "demo_page_args =
     \<lparr>update_wiki_page_input.wikiId = ''10'', update_wiki_page_input.pageId = ''20'',
      update_wiki_page_input.subject = Some ''Title'', update_wiki_page_input.content = None,
      update_wiki_page_input.referrers = None\<rparr>"

text \<open>
  What \<^verbatim>\<open>curl\<close> prints for the write-out format
  \<^verbatim>\<open>'\n%{http_code}\n%{redirect_url}'\<close> of the probe when the body goes to
  \<^verbatim>\<open>/dev/null\<close>: the redirect target is the empty string when the response has none.
\<close>

definition curl_write_out :: "string \<Rightarrow> string \<Rightarrow> string" where
  "curl_write_out http_code redirect_url = [CHR 0x0A] @ http_code @ [CHR 0x0A] @ redirect_url"

type_synonym demo_fs = "(string \<times> bool) list"

definition demo_envelope :: js_value where
  "demo_envelope =
     JObject [(''header'', JObject [(''isSuccessful'', JBool True)]),
              (''result'', JObject [(''id'', JString ''f1''), (''attachFileId'', JString ''a1''),
                                    (''name'', JString ''a.txt'')])]"

definition demo_rejected :: js_value where
  "demo_rejected =
     JObject [(''header'', JObject [(''isSuccessful'', JBool False),
                                    (''resultMessage'', JString ''quota exceeded'')]),
              (''result'', JNull)]"

text \<open>
  \<open>token\<close> is the configured API token, \<open>probe\<close> what the first request prints.  The
  file server rejects uploads to \<open>https://files.example/reject\<close>, and nothing can be
  written below \<open>/readonly\<close>.
\<close>

definition demo_node :: "string option \<Rightarrow> string \<Rightarrow> (string, demo_fs) node" where
  "demo_node token probe =
     \<lparr>DOORAY_API_TOKEN = token,
      DOORAY_API_BASE_URL = None,
      existsSync = (\<lambda>p fs. p \<in> fst ` set fs),
      isDirectory = (\<lambda>p fs. case map_of fs p of Some d \<Rightarrow> Inr d | None \<Rightarrow> Inl (Thrown ''ENOENT'')),
      mkdirSync = (\<lambda>p fs. (Inr (), (p, True) # fs)),
      writeFileSync = (\<lambda>p d fs. if take 10 p = ''/readonly/'' then (Inl (Thrown ''EACCES''), fs)
                                else (Inr (), (p, False) # fs)),
      execAsync = (\<lambda>c fs. case c of
                     CurlProbe u t f \<Rightarrow> (Inr probe, fs)
                   | CurlPost u t f \<Rightarrow>
                       (Inr (if u = ''https://files.example/reject'' then ''rejected'' else ''envelope''), fs)),
      JSON_parse = (\<lambda>s. if s = ''envelope'' then Inr demo_envelope
                          else if s = ''rejected'' then Inr demo_rejected
                          else Inl (Thrown ''SyntaxError'')),
      path_basename = (\<lambda>p. last (split (CHR ''/'') p)),
      path_dirname = (\<lambda>p. rev (tl (dropWhile (\<lambda>c. c \<noteq> CHR ''/'') (rev p)))),
      path_join = (\<lambda>a b. if endsWith_slash a then a @ b else a @ ''/'' @ b),
      toString = (\<lambda>v. case v of JString s \<Rightarrow> s | _ \<Rightarrow> ''value''),
      decodeURIComponent = (\<lambda>s. Inr s),
      toBase64 = (\<lambda>d. ''base64'')\<rparr>"

definition demo_files :: demo_fs where
  "demo_files = [(''/tmp'', True), (''/tmp/a.txt'', False), (''/readonly'', True)]"

definition demo_download :: download_result where
  "demo_download =
     \<lparr>data = [1, 2, 3], contentType = JString ''application/pdf'', contentLength = JNum 3,
      contentDisposition = None\<rparr>"

definition demo_download_api :: "(string, demo_fs) download_api" where
  "demo_download_api c fs = (Inr demo_download, fs)"

section \<open>Properties of the task update orchestrator\<close>

lemma map_of_assign:
  "map_of (case x of None \<Rightarrow> p | Some v \<Rightarrow> AList.update k (f v) p) k' =
     (if k' = k then (case x of None \<Rightarrow> map_of p k' | Some v \<Rightarrow> Some (f v)) else map_of p k')"
  by (simp add: update_conv' split: option.splits)

lemma users_param:
  "map_of (buildUpdateParams convert args) ''users'' =
     (if assignees args \<noteq> None \<or> cc args \<noteq> None
      then Some (JObject [(''to'', transformMembers convert (assignees args)),
                          (''cc'', transformMembers convert (cc args))])
      else None)"
  by (simp add: buildUpdateParams_def Let_def map_of_assign update_conv')

lemma milestone_param:
  "map_of (buildUpdateParams convert args) ''milestoneId'' =
     map_option nullable_string_json (milestoneId args)"
  by (simp add: buildUpdateParams_def Let_def map_of_assign update_conv' split: option.splits)

lemma assign_empty:
  "(case x of None \<Rightarrow> p | Some v \<Rightarrow> AList.update k (f v) p) = [] \<longleftrightarrow> x = None \<and> p = []"
  by (cases x; cases p) simp_all

lemma update_nonempty: "AList.update k v p \<noteq> []"
  by (cases p) simp_all

lemma buildUpdateParams_empty:
  "buildUpdateParams convert args = [] \<longleftrightarrow>
     update_task_input.subject args = None \<and> update_task_input.body args = None
     \<and> dueDate args = None \<and> milestoneId args = None
     \<and> tagIds args = None \<and> priority args = None \<and> assignees args = None \<and> cc args = None"
  by (simp add: buildUpdateParams_def Let_def assign_empty update_nonempty) blast

lemmas handler_unfold =
  updateTaskHandler_def tool_boundary_def updateTask_try_def bind_def perform_def ret_def
  start_def ok_result_def error_result_def Let_def

lemma first_call_is_field_patch:
  assumes "buildUpdateParams convert args \<noteq> []"
  shows "\<exists>r rest. log (snd (updateTaskHandler rt api convert args (start w))) =
           (UpdateTask (projectId args) (taskId args) (buildUpdateParams convert args), r) # rest"
  using assms
  by (cases "workflowId args"; cases "parentPostId args")
     (auto simp add: handler_unfold split: sum.splits prod.splits)

lemma demo_params [simp]:
  "buildUpdateParams demo_convert demo_args = []"
  "buildUpdateParams demo_convert (demo_args\<lparr>workflowId := Some ''working''\<rparr>) = []"
  "buildUpdateParams demo_convert (demo_args\<lparr>milestoneId := Some Null\<rparr>) = [(''milestoneId'', JNull)]"
  "buildUpdateParams demo_convert (demo_args\<lparr>milestoneId := None\<rparr>) = []"
  "buildUpdateParams demo_convert (demo_args\<lparr>update_task_input.subject := Some ''S'', workflowId := Some ''working'', parentPostId := Some ''99''\<rparr>)
     = [(''subject'', JString ''S'')]"
  "buildUpdateParams demo_convert (demo_args\<lparr>cc := Some []\<rparr>)
     = [(''users'', JObject [(''to'', JArray []), (''cc'', JArray [])])]"
  by (simp_all add: buildUpdateParams_def demo_args_def demo_convert_def transformMembers_def)

text \<open>
  Claim C9.  Whenever \<open>assignees\<close> or \<open>cc\<close> is supplied, even as an empty list, the
  payload of the field-patch call has the key \<open>users\<close>, bound to an object built from
  both lists in which a side that was not supplied is the empty list, and that payload is
  what the first call of the handler sends.  When neither is supplied the payload has no
  \<open>users\<close> key.
\<close>

theorem update_task_users_payload:
  "(assignees args \<noteq> None \<or> cc args \<noteq> None \<longrightarrow>
      map_of (buildUpdateParams convert args) ''users'' =
        Some (JObject [(''to'', (case assignees args of None \<Rightarrow> JArray [] | Some xs \<Rightarrow> convert xs)),
                       (''cc'', (case cc args of None \<Rightarrow> JArray [] | Some xs \<Rightarrow> convert xs))])
      \<and> (\<exists>r rest. log (snd (updateTaskHandler rt api convert args (start w))) =
            (UpdateTask (projectId args) (taskId args) (buildUpdateParams convert args), r) # rest))
   \<and> (assignees args = None \<and> cc args = None \<longrightarrow>
        map_of (buildUpdateParams convert args) ''users'' = None)"
proof -
  have "buildUpdateParams convert args \<noteq> []" if "assignees args \<noteq> None \<or> cc args \<noteq> None"
    using that by (auto simp add: buildUpdateParams_empty)
  then show ?thesis
    using first_call_is_field_patch [of convert args rt api w]
    by (auto simp add: users_param transformMembers_def)
qed

theorem update_task_users_payload_witness:
  "cc (demo_args\<lparr>cc := Some []\<rparr>) \<noteq> None
   \<and> map_of (buildUpdateParams demo_convert (demo_args\<lparr>cc := Some []\<rparr>)) ''users''
       = Some (JObject [(''to'', JArray []), (''cc'', JArray [])])
   \<and> assignees demo_args = None \<and> cc demo_args = None
   \<and> map_of (buildUpdateParams demo_convert demo_args) ''users'' = None"
  using update_task_users_payload [of "demo_args\<lparr>cc := Some []\<rparr>" demo_convert demo_runtime demo_api 0]
        update_task_users_payload [of demo_args demo_convert demo_runtime demo_api 0]
  by (simp add: demo_args_def demo_convert_def)

text \<open>
  Claim C3.  With \<open>milestoneId\<close> given as \<^verbatim>\<open>null\<close> the payload binds the key
  \<open>milestoneId\<close> to \<^verbatim>\<open>null\<close> and the handler's first call is the field patch
  carrying that payload; with \<open>milestoneId\<close> omitted the payload has no such key; the
  two payloads differ.
\<close>

theorem update_task_milestone_null:
  "map_of (buildUpdateParams convert (args\<lparr>milestoneId := Some Null\<rparr>)) ''milestoneId'' = Some JNull
   \<and> (\<exists>r rest. log (snd (updateTaskHandler rt api convert (args\<lparr>milestoneId := Some Null\<rparr>) (start w))) =
         (UpdateTask (projectId args) (taskId args) (buildUpdateParams convert (args\<lparr>milestoneId := Some Null\<rparr>)), r) # rest)
   \<and> map_of (buildUpdateParams convert (args\<lparr>milestoneId := None\<rparr>)) ''milestoneId'' = None
   \<and> buildUpdateParams convert (args\<lparr>milestoneId := Some Null\<rparr>) \<noteq> buildUpdateParams convert (args\<lparr>milestoneId := None\<rparr>)"
proof -
  have a: "map_of (buildUpdateParams convert (args\<lparr>milestoneId := Some Null\<rparr>)) ''milestoneId'' = Some JNull"
    by (simp add: milestone_param)
  have b: "map_of (buildUpdateParams convert (args\<lparr>milestoneId := None\<rparr>)) ''milestoneId'' = None"
    by (simp add: milestone_param)
  have c: "buildUpdateParams convert (args\<lparr>milestoneId := Some Null\<rparr>) \<noteq> []"
    by (simp add: buildUpdateParams_empty)
  have d: "buildUpdateParams convert (args\<lparr>milestoneId := Some Null\<rparr>) \<noteq> buildUpdateParams convert (args\<lparr>milestoneId := None\<rparr>)"
    using a b by auto
  show ?thesis
    using a b d first_call_is_field_patch [OF c, of rt api w] by simp
qed

theorem update_task_milestone_null_witness:
  "buildUpdateParams demo_convert (demo_args\<lparr>milestoneId := Some Null\<rparr>) = [(''milestoneId'', JNull)]
   \<and> buildUpdateParams demo_convert (demo_args\<lparr>milestoneId := None\<rparr>) = []
   \<and> map_of (buildUpdateParams demo_convert (demo_args\<lparr>milestoneId := Some Null\<rparr>)) ''milestoneId'' = Some JNull"
  using update_task_milestone_null [of demo_convert demo_args demo_runtime demo_api 0]
  by simp

lemma demo_run_all_three:
  "updateTaskHandler demo_runtime demo_api demo_convert
     (demo_args\<lparr>update_task_input.subject := Some ''S'', workflowId := Some ''working'', parentPostId := Some ''99''\<rparr>)
     (start 0) =
   (ok_result (Some ''{}''),
    \<lparr>log = [(UpdateTask ''1'' ''2'' [(''subject'', JString ''S'')], Inr demo_task),
            (SetTaskWorkflow ''1'' ''2'' ''working'', Inr demo_task),
            (SetParentPost ''1'' ''2'' ''99'', Inr demo_task)],
     world = 3\<rparr>)"
  by (simp add: updateTaskHandler_def tool_boundary_def updateTask_try_def bind_def perform_def
        ret_def start_def buildUpdateParams_def demo_api_def demo_task_def demo_runtime_def
        demo_args_def ok_result_def)

lemma demo_run_workflow_fails:
  "updateTaskHandler demo_runtime demo_api_workflow_fails demo_convert
     (demo_args\<lparr>update_task_input.subject := Some ''S'', workflowId := Some ''working'', parentPostId := Some ''99''\<rparr>)
     (start 0) =
   (error_result demo_runtime (Thrown ''workflow rejected''),
    \<lparr>log = [(UpdateTask ''1'' ''2'' [(''subject'', JString ''S'')], Inr demo_task),
            (SetTaskWorkflow ''1'' ''2'' ''working'', Inl (Thrown ''workflow rejected''))],
     world = 2\<rparr>)"
  by (simp add: updateTaskHandler_def tool_boundary_def updateTask_try_def bind_def perform_def
        ret_def start_def buildUpdateParams_def demo_api_workflow_fails_def demo_task_def
        demo_args_def)

lemma demo_run_workflow_only:
  "updateTaskHandler demo_runtime demo_api demo_convert (demo_args\<lparr>workflowId := Some ''working''\<rparr>) (start 0) =
   (ok_result (Some ''{}''),
    \<lparr>log = [(SetTaskWorkflow ''1'' ''2'' ''working'', Inr demo_task),
            (GetTaskDetails ''2'' ''1'', Inr demo_task)],
     world = 2\<rparr>)"
  by (simp add: updateTaskHandler_def tool_boundary_def updateTask_try_def bind_def perform_def
        ret_def start_def buildUpdateParams_def demo_api_def demo_task_def demo_runtime_def
        demo_args_def ok_result_def)

text \<open>
  Claim C4.  The calls an invocation issues are, in this order, an initial segment of:
  the field patch (if the payload is not empty), the workflow call (if \<open>workflowId\<close> was
  supplied), the parent call (if \<open>parentPostId\<close> was supplied), the final fetch.  They
  are issued strictly one after the other: replaying the logged calls in sequence from the
  initial world, each against the world its predecessor left, gives back the log and the
  final world.  When the invocation does not end in an error, every sub-call whose trigger
  is present has been issued, whether or not the earlier ones had a trigger.  More
  precisely, the workflow call is issued whenever \<open>workflowId\<close> is present and the field
  patch did not fail, and the parent call whenever \<open>parentPostId\<close> is present and neither
  the field patch nor the workflow call failed.
\<close>

theorem update_task_call_order:
  assumes "updateTaskHandler rt api convert args (start w) = (res, st')"
  shows "prefix (map fst (log st')) (sub_calls convert args @ [GetTaskDetails (taskId args) (projectId args)])
     \<and> run_seq api (map fst (log st')) w = (log st', world st')
     \<and> (isError res = None \<longrightarrow> prefix (sub_calls convert args) (map fst (log st')))
     \<and> (workflowId args = Some wid
          \<and> (\<forall>ps e. (UpdateTask (projectId args) (taskId args) ps, Inl e) \<notin> set (log st'))
         \<longrightarrow> (\<exists>r. (SetTaskWorkflow (projectId args) (taskId args) wid, r) \<in> set (log st')))
     \<and> (parentPostId args = Some pp
          \<and> (\<forall>ps e. (UpdateTask (projectId args) (taskId args) ps, Inl e) \<notin> set (log st'))
          \<and> (\<forall>x e. (SetTaskWorkflow (projectId args) (taskId args) x, Inl e) \<notin> set (log st'))
         \<longrightarrow> (\<exists>r. (SetParentPost (projectId args) (taskId args) pp, r) \<in> set (log st')))"
  using assms
  apply (cases "buildUpdateParams convert args = []"; cases "workflowId args"; cases "parentPostId args")
         apply (simp_all add: handler_unfold sub_calls_def split: sum.splits prod.splits if_splits)
         apply auto
  done

theorem update_task_call_order_witness:
  "updateTaskHandler demo_runtime demo_api demo_convert
     (demo_args\<lparr>update_task_input.subject := Some ''S'', workflowId := Some ''working'', parentPostId := Some ''99''\<rparr>)
     (start 0) =
   (ok_result (Some ''{}''),
    \<lparr>log = [(UpdateTask ''1'' ''2'' [(''subject'', JString ''S'')], Inr demo_task),
            (SetTaskWorkflow ''1'' ''2'' ''working'', Inr demo_task),
            (SetParentPost ''1'' ''2'' ''99'', Inr demo_task)],
     world = 3\<rparr>)
   \<and> isError (ok_result (Some ''{}'')) = None
   \<and> prefix (sub_calls demo_convert
         (demo_args\<lparr>update_task_input.subject := Some ''S'', workflowId := Some ''working'', parentPostId := Some ''99''\<rparr>))
        [UpdateTask ''1'' ''2'' [(''subject'', JString ''S'')],
         SetTaskWorkflow ''1'' ''2'' ''working'',
         SetParentPost ''1'' ''2'' ''99'']"
  using update_task_call_order [OF demo_run_all_three, of "''working''" "''99''"] demo_run_all_three
  by (simp add: ok_result_def)

text \<open>
  Claim C5.  When a call of an invocation fails, that call is the last one issued: nothing
  follows it, neither a compensating call nor a remaining sub-call nor the final fetch.
  Every call before it succeeded, the calls issued are an initial segment of the planned
  sequence, and the handler's result is the error envelope of exactly the error that call
  raised.
\<close>

theorem update_task_no_rollback:
  assumes "updateTaskHandler rt api convert args (start w) = (res, st')"
    and "(c, Inl e) \<in> set (log st')"
  shows "(\<exists>pre. log st' = pre @ [(c, Inl e)] \<and> (\<forall>(c', r) \<in> set pre. \<exists>v. r = Inr v))
     \<and> res = error_result rt e
     \<and> prefix (map fst (log st')) (sub_calls convert args @ [GetTaskDetails (taskId args) (projectId args)])
     \<and> run_seq api (map fst (log st')) w = (log st', world st')"
  using assms
  apply (cases "buildUpdateParams convert args = []"; cases "workflowId args"; cases "parentPostId args")
         apply (simp_all add: handler_unfold sub_calls_def split: sum.splits prod.splits if_splits)
         apply auto
  done

theorem update_task_no_rollback_witness:
  "updateTaskHandler demo_runtime demo_api_workflow_fails demo_convert
     (demo_args\<lparr>update_task_input.subject := Some ''S'', workflowId := Some ''working'', parentPostId := Some ''99''\<rparr>)
     (start 0) =
   (error_result demo_runtime (Thrown ''workflow rejected''),
    \<lparr>log = [(UpdateTask ''1'' ''2'' [(''subject'', JString ''S'')], Inr demo_task),
            (SetTaskWorkflow ''1'' ''2'' ''working'', Inl (Thrown ''workflow rejected''))],
     world = 2\<rparr>)
   \<and> (SetTaskWorkflow ''1'' ''2'' ''working'', Inl (Thrown ''workflow rejected''))
       \<in> set [(UpdateTask ''1'' ''2'' [(''subject'', JString ''S'')], Inr demo_task),
               (SetTaskWorkflow ''1'' ''2'' ''working'', Inl (Thrown ''workflow rejected''))]
   \<and> prefix [UpdateTask ''1'' ''2'' [(''subject'', JString ''S'')], SetTaskWorkflow ''1'' ''2'' ''working'']
        (sub_calls demo_convert
           (demo_args\<lparr>update_task_input.subject := Some ''S'', workflowId := Some ''working'', parentPostId := Some ''99''\<rparr>)
         @ [GetTaskDetails ''2'' ''1''])"
  using update_task_no_rollback [OF demo_run_workflow_fails,
          of "SetTaskWorkflow ''1'' ''2'' ''working''" "Thrown ''workflow rejected''"]
        demo_run_workflow_fails
  by (simp add: demo_args_def)

text \<open>
  Claim C2.  When \<open>workflowId\<close> is the only optional field supplied, no field-patch call
  is ever issued, and the first call is the workflow call and it is the only workflow call.
  When the workflow call and the fetch that follows it succeed, these two are all the calls
  issued, and the handler returns the success envelope whose text is the serialisation of
  the task the fetch returned.  Conversely, a result that is not an error is always that
  envelope around the fetched task.
\<close>

theorem update_task_workflow_only:
  assumes "updateTaskHandler rt api convert args (start w) = (res, st')"
    and "update_task_input.subject args = None" "update_task_input.body args = None"
        "assignees args = None" "cc args = None" "dueDate args = None" "milestoneId args = None"
        "tagIds args = None" "priority args = None" "parentPostId args = None"
        "workflowId args = Some wid"
  shows "(\<forall>p t ps r. (UpdateTask p t ps, r) \<notin> set (log st'))
     \<and> (\<exists>r rest. log st' = (SetTaskWorkflow (projectId args) (taskId args) wid, r) # rest
           \<and> (\<forall>p t x r'. (SetTaskWorkflow p t x, r') \<notin> set rest))
     \<and> (api (SetTaskWorkflow (projectId args) (taskId args) wid) w = (Inr u, w1)
          \<and> api (GetTaskDetails (taskId args) (projectId args)) w1 = (Inr v, w2)
         \<longrightarrow> res = \<lparr>tool_result.content = [\<lparr>item_type = ''text'', item_text = JSON_stringify rt v\<rparr>],
                     isError = None\<rparr>
           \<and> st' = \<lparr>log = [(SetTaskWorkflow (projectId args) (taskId args) wid, Inr u),
                            (GetTaskDetails (taskId args) (projectId args), Inr v)],
                     world = w2\<rparr>)
     \<and> (isError res = None \<longrightarrow>
          (\<exists>u v. log st' = [(SetTaskWorkflow (projectId args) (taskId args) wid, Inr u),
                            (GetTaskDetails (taskId args) (projectId args), Inr v)]
                 \<and> api (GetTaskDetails (taskId args) (projectId args))
                      (snd (api (SetTaskWorkflow (projectId args) (taskId args) wid) w)) = (Inr v, world st')
                 \<and> res = \<lparr>tool_result.content = [\<lparr>item_type = ''text'', item_text = JSON_stringify rt v\<rparr>],
                           isError = None\<rparr>))"
proof -
  have "buildUpdateParams convert args = []"
    using assms by (simp add: buildUpdateParams_empty)
  then show ?thesis
    using assms(1,10,11)
    apply (simp add: handler_unfold split: sum.splits prod.splits if_splits)
    apply auto
    done
qed

theorem update_task_workflow_only_witness:
  "updateTaskHandler demo_runtime demo_api demo_convert (demo_args\<lparr>workflowId := Some ''working''\<rparr>) (start 0) =
   (\<lparr>tool_result.content = [\<lparr>item_type = ''text'', item_text = Some ''{}''\<rparr>], isError = None\<rparr>,
    \<lparr>log = [(SetTaskWorkflow ''1'' ''2'' ''working'', Inr demo_task),
            (GetTaskDetails ''2'' ''1'', Inr demo_task)],
     world = 2\<rparr>)
   \<and> demo_api (SetTaskWorkflow ''1'' ''2'' ''working'') 0 = (Inr demo_task, 1)
   \<and> demo_api (GetTaskDetails ''2'' ''1'') 1 = (Inr demo_task, 2)
   \<and> JSON_stringify demo_runtime demo_task = Some ''{}''
   \<and> (\<forall>p t ps r. (UpdateTask p t ps, r) \<notin>
         set [(SetTaskWorkflow ''1'' ''2'' ''working'', Inr demo_task), (GetTaskDetails ''2'' ''1'', (Inr demo_task :: string thrown + js_value))])"
proof -
  let ?args = "demo_args\<lparr>workflowId := Some ''working''\<rparr>"
  have s: "demo_api (SetTaskWorkflow ''1'' ''2'' ''working'') 0 = (Inr demo_task, 1)"
          "demo_api (GetTaskDetails ''2'' ''1'') 1 = (Inr demo_task, 2)"
    by (simp_all add: demo_api_def)
  have j: "JSON_stringify demo_runtime demo_task = Some ''{}''"
    by (simp add: demo_runtime_def demo_task_def)
  have a: "projectId ?args = ''1''" "taskId ?args = ''2''"
    by (simp_all add: demo_args_def)
  have h: "demo_api (SetTaskWorkflow (projectId ?args) (taskId ?args) ''working'') 0 = (Inr demo_task, 1)
           \<and> demo_api (GetTaskDetails (taskId ?args) (projectId ?args)) 1 = (Inr demo_task, 2)"
    using s by (simp only: a simp_thms)
  have t: "ok_result (Some ''{}'') =
             \<lparr>tool_result.content = [\<lparr>item_type = ''text'', item_text = JSON_stringify demo_runtime demo_task\<rparr>],
              isError = None\<rparr>"
    by (rule update_task_workflow_only
              [OF demo_run_workflow_only, of "''working''" demo_task 1 demo_task 2,
               THEN conjunct2, THEN conjunct2, THEN conjunct1, THEN mp, THEN conjunct1])
       (simp_all add: demo_args_def h [unfolded a] demo_api_def)
  have u: "\<forall>p t ps r. (UpdateTask p t ps, r) \<notin>
         set [(SetTaskWorkflow ''1'' ''2'' ''working'', Inr demo_task), (GetTaskDetails ''2'' ''1'', (Inr demo_task :: string thrown + js_value))]"
    by simp
  show ?thesis
    using s j u t demo_run_workflow_only by (simp only: simp_thms)
qed

section \<open>Properties of the wiki page update\<close>

lemma body_param:
  "map_of (updateWikiPage_requestBody (updateWikiPage_params args)) ''body'' =
     (case update_wiki_page_input.content args of
        Some c \<Rightarrow> if c \<noteq> [] then Some (JObject [(''mimeType'', JString ''text/x-markdown''), (''content'', JString c)])
                  else None
      | None \<Rightarrow> None)"
  by (simp add: updateWikiPage_requestBody_def updateWikiPage_params_def wiki_page_body_json_def
        Let_def map_of_assign split: option.splits)

lemma updateWikiPage_params_empty_content:
  "updateWikiPage_params (args\<lparr>update_wiki_page_input.content := Some ''''\<rparr>)
     = updateWikiPage_params (args\<lparr>update_wiki_page_input.content := None\<rparr>)"
  by (simp add: updateWikiPage_params_def)

lemma updateWikiPageHandler_call:
  "\<exists>r. log (snd (updateWikiPageHandler rt client args (start w))) =
     [(Put (''/wiki/v1/wikis/'' @ update_wiki_page_input.wikiId args @ ''/pages/'' @ update_wiki_page_input.pageId args)
           (updateWikiPage_requestBody (updateWikiPage_params args)), r)]"
  by (simp add: updateWikiPageHandler_def tool_boundary_def updateWikiPage_try_def updateWikiPage_def
        bind_def perform_def ret_def start_def WIKI_BASE_def updateWikiPage_params_def
      split: prod.splits sum.splits)

text \<open>
  Claim C10.  With \<open>content\<close> given as the empty string the handler behaves exactly as with
  \<open>content\<close> absent: the request body of the one PUT it issues has no \<open>body\<close> key.  For
  any input, the \<open>body\<close> key is present exactly when \<open>content\<close> is truthy, so no input
  makes the payload carry the empty string as page content.
\<close>

theorem update_wiki_page_empty_content:
  "updateWikiPageHandler rt client (args\<lparr>update_wiki_page_input.content := Some ''''\<rparr>) st
     = updateWikiPageHandler rt client (args\<lparr>update_wiki_page_input.content := None\<rparr>) st
   \<and> map_of (updateWikiPage_requestBody (updateWikiPage_params (args\<lparr>update_wiki_page_input.content := Some ''''\<rparr>))) ''body'' = None
   \<and> (\<exists>r. log (snd (updateWikiPageHandler rt client (args\<lparr>update_wiki_page_input.content := Some ''''\<rparr>) (start w))) =
         [(Put (''/wiki/v1/wikis/'' @ update_wiki_page_input.wikiId args @ ''/pages/'' @ update_wiki_page_input.pageId args)
               (updateWikiPage_requestBody (updateWikiPage_params (args\<lparr>update_wiki_page_input.content := None\<rparr>))), r)])
   \<and> map_of (updateWikiPage_requestBody (updateWikiPage_params args)) ''body''
       \<noteq> Some (JObject [(''mimeType'', JString ''text/x-markdown''), (''content'', JString '''')])
   \<and> (map_of (updateWikiPage_requestBody (updateWikiPage_params args)) ''body'' \<noteq> None
        \<longleftrightarrow> str_truthy (update_wiki_page_input.content args))"
proof -
  have a: "updateWikiPageHandler rt client (args\<lparr>update_wiki_page_input.content := Some ''''\<rparr>)
             = updateWikiPageHandler rt client (args\<lparr>update_wiki_page_input.content := None\<rparr>)"
    by (simp add: updateWikiPageHandler_def updateWikiPage_try_def updateWikiPage_params_empty_content)
  have b: "map_of (updateWikiPage_requestBody (updateWikiPage_params (args\<lparr>update_wiki_page_input.content := Some ''''\<rparr>))) ''body'' = None"
    by (simp add: body_param)
  have c: "map_of (updateWikiPage_requestBody (updateWikiPage_params args)) ''body''
       \<noteq> Some (JObject [(''mimeType'', JString ''text/x-markdown''), (''content'', JString '''')])"
    by (simp add: body_param split: option.splits)
  have d: "map_of (updateWikiPage_requestBody (updateWikiPage_params args)) ''body'' \<noteq> None
        \<longleftrightarrow> str_truthy (update_wiki_page_input.content args)"
    by (simp add: body_param str_truthy_def split: option.splits)
  show ?thesis
    using a b c d
      updateWikiPageHandler_call [of rt client "args\<lparr>update_wiki_page_input.content := Some ''''\<rparr>" w]
    by (simp add: updateWikiPage_params_empty_content)
qed

theorem update_wiki_page_empty_content_witness:
  "snd (updateWikiPageHandler demo_runtime demo_client (demo_page_args\<lparr>update_wiki_page_input.content := Some ''''\<rparr>) (start 0))
     = \<lparr>log = [(Put ''/wiki/v1/wikis/10/pages/20'' [(''subject'', JString ''Title'')], Inr JNull)], world = 1\<rparr>
   \<and> updateWikiPageHandler demo_runtime demo_client (demo_page_args\<lparr>update_wiki_page_input.content := Some ''''\<rparr>) (start 0)
     = updateWikiPageHandler demo_runtime demo_client (demo_page_args\<lparr>update_wiki_page_input.content := None\<rparr>) (start 0)"
proof -
  have "snd (updateWikiPageHandler demo_runtime demo_client (demo_page_args\<lparr>update_wiki_page_input.content := Some ''''\<rparr>) (start 0))
     = \<lparr>log = [(Put ''/wiki/v1/wikis/10/pages/20'' [(''subject'', JString ''Title'')], Inr JNull)], world = 1\<rparr>"
    by (simp add: updateWikiPageHandler_def tool_boundary_def updateWikiPage_try_def updateWikiPage_def
        bind_def perform_def ret_def start_def WIKI_BASE_def updateWikiPage_params_def
        updateWikiPage_requestBody_def demo_client_def demo_page_args_def)
  then show ?thesis
    using update_wiki_page_empty_content [of demo_runtime demo_client demo_page_args "start 0" 0]
    by simp
qed

section \<open>Properties of the file upload\<close>

lemma upload_try_no_token:
  assumes "\<not> str_truthy (DOORAY_API_TOKEN nd)"
  shows "upload_try rt nd endpoint file tail st =
           (Inl (Error ''DOORAY_API_TOKEN environment variable is required''), st)"
  using assms by (simp add: upload_try_def throw_def Let_def)

lemma upload_try_no_file:
  assumes "str_truthy (DOORAY_API_TOKEN nd)" and "\<not> existsSync nd file (world st)"
  shows "upload_try rt nd endpoint file tail st = (Inl (Error (''File not found: '' @ file)), st)"
  using assms by (simp add: upload_try_def throw_def bind_def reads_def Let_def)

text \<open>
  What the branch on the parsed status does: when the two parsed lines are neither
  \<open>307\<close> with a truthy redirect target nor \<open>200\<close> or \<open>201\<close>, the probe is the
  only command run and the error carries the parsed status line, or \<open>undefined\<close> when
  the output had a single line.
\<close>

lemma upload_try_unexpected_status:
  assumes "str_truthy (DOORAY_API_TOKEN nd)" and "existsSync nd file w"
    and "probe = CurlProbe (endpoint (or_else (DOORAY_API_BASE_URL nd) ''https://api.dooray.com''))
                   (template (DOORAY_API_TOKEN nd)) file"
    and "execAsync nd probe w = (Inr stdout, w')"
    and "step1Lines = split (CHR 0x0A) (trim stdout)"
    and "httpCode = js_index step1Lines (int (length step1Lines) - 2)"
    and "redirectUrl = js_index step1Lines (int (length step1Lines) - 1)"
    and "\<not> (httpCode = Some ''307'' \<and> str_truthy redirectUrl)"
    and "httpCode \<noteq> Some ''200''" and "httpCode \<noteq> Some ''201''"
  shows "upload_try rt nd endpoint file tail (start w) =
           (Inl (Error (''Unexpected HTTP status: '' @ template httpCode)),
            \<lparr>log = [(probe, Inr stdout)], world = w'\<rparr>)"
  using assms
  by (auto simp add: upload_try_def throw_def bind_def reads_def perform_def start_def Let_def)

text \<open>
  Claim C6.  When \<^verbatim>\<open>DOORAY_API_TOKEN\<close> is unset (or empty), both upload handlers return the
  error envelope of the missing-token error and leave the state as it was: no command is
  run, so no network call is made.  When the token is set and the local file does not
  exist, they return the error envelope of the not-found error, which names the path, again
  without running any command.  The token is checked first.
\<close>

theorem upload_preconditions:
  "(\<not> str_truthy (DOORAY_API_TOKEN nd) \<longrightarrow>
      uploadWikiFileHandler rt nd a st =
        (error_result rt (Error ''DOORAY_API_TOKEN environment variable is required''), st)
      \<and> uploadWikiPageFileHandler rt nd b st =
        (error_result rt (Error ''DOORAY_API_TOKEN environment variable is required''), st))
   \<and> (str_truthy (DOORAY_API_TOKEN nd) \<and> \<not> existsSync nd (upload_wiki_file_input.filePath a) (world st) \<longrightarrow>
      uploadWikiFileHandler rt nd a st =
        (error_result rt (Error (''File not found: '' @ upload_wiki_file_input.filePath a)), st))
   \<and> (str_truthy (DOORAY_API_TOKEN nd) \<and> \<not> existsSync nd (upload_wiki_page_file_input.filePath b) (world st) \<longrightarrow>
      uploadWikiPageFileHandler rt nd b st =
        (error_result rt (Error (''File not found: '' @ upload_wiki_page_file_input.filePath b)), st))"
  by (simp add: uploadWikiFileHandler_def uploadWikiPageFileHandler_def tool_boundary_def
        upload_try_no_token upload_try_no_file)

theorem upload_preconditions_witness:
  "\<not> str_truthy (DOORAY_API_TOKEN (demo_node None ''''))
   \<and> uploadWikiFileHandler demo_runtime (demo_node None '''')
        \<lparr>upload_wiki_file_input.wikiId = ''10'', upload_wiki_file_input.filePath = ''/tmp/a.txt''\<rparr> (start demo_files)
       = (error_result demo_runtime (Error ''DOORAY_API_TOKEN environment variable is required''),
          \<lparr>log = [], world = demo_files\<rparr>)
   \<and> str_truthy (DOORAY_API_TOKEN (demo_node (Some ''tok'') ''''))
   \<and> \<not> existsSync (demo_node (Some ''tok'') '''') ''/tmp/missing.txt'' demo_files
   \<and> uploadWikiPageFileHandler demo_runtime (demo_node (Some ''tok'') '''')
        \<lparr>upload_wiki_page_file_input.wikiId = ''10'', upload_wiki_page_file_input.pageId = ''20'',
         upload_wiki_page_file_input.filePath = ''/tmp/missing.txt''\<rparr> (start demo_files)
       = (error_result demo_runtime (Error ''File not found: /tmp/missing.txt''),
          \<lparr>log = [], world = demo_files\<rparr>)"
  using upload_preconditions [of "demo_node None ''''" demo_runtime
          "\<lparr>upload_wiki_file_input.wikiId = ''10'', upload_wiki_file_input.filePath = ''/tmp/a.txt''\<rparr>"
          "start demo_files"
          "\<lparr>upload_wiki_page_file_input.wikiId = ''10'', upload_wiki_page_file_input.pageId = ''20'',
            upload_wiki_page_file_input.filePath = ''/tmp/missing.txt''\<rparr>"]
        upload_preconditions [of "demo_node (Some ''tok'') ''''" demo_runtime
          "\<lparr>upload_wiki_file_input.wikiId = ''10'', upload_wiki_file_input.filePath = ''/tmp/a.txt''\<rparr>"
          "start demo_files"
          "\<lparr>upload_wiki_page_file_input.wikiId = ''10'', upload_wiki_page_file_input.pageId = ''20'',
            upload_wiki_page_file_input.filePath = ''/tmp/missing.txt''\<rparr>"]
  by (simp add: demo_node_def str_truthy_def demo_files_def start_def)

lemma probe_lines_404:
  "split (CHR 0x0A) (trim (curl_write_out ''404'' '''')) = [''404'']"
  by (simp add: curl_write_out_def trim_def is_js_space_def)

text \<open>
  Claim C1, evaluated where it fails.  The first response is a 404 without a redirect
  target, so the probe prints a line break, \<open>404\<close> and a line break.  After
  \<^verbatim>\<open>trim\<close> and \<^verbatim>\<open>split\<close> a single line is left, which the handler reads as
  the redirect target; the status is read one line above it, outside the array.  The
  handler fails without a second command, but its error names \<open>undefined\<close>, not the
  status code.
\<close>

theorem upload_status_404_reports_undefined:
  "uploadWikiFileHandler demo_runtime (demo_node (Some ''tok'') (curl_write_out ''404'' ''''))
     \<lparr>upload_wiki_file_input.wikiId = ''10'', upload_wiki_file_input.filePath = ''/tmp/a.txt''\<rparr>
     (start demo_files)
   = (error_result demo_runtime (Error ''Unexpected HTTP status: undefined''),
      \<lparr>log = [(CurlProbe ''https://api.dooray.com/wiki/v1/wikis/10/files'' ''tok'' ''/tmp/a.txt'',
               Inr (curl_write_out ''404'' ''''))],
       world = demo_files\<rparr>)"
  by (simp add: uploadWikiFileHandler_def tool_boundary_def upload_try_def throw_def bind_def
        reads_def perform_def start_def Let_def demo_node_def str_truthy_def demo_files_def
        probe_lines_404 js_index_def or_else_def template_def)

subsection \<open>What the status probe can and cannot tell\<close>

lemma split_not_Nil: "split sep s \<noteq> []"
  by (induction s) (auto split: list.splits)

lemma split_no_separator: "sep \<notin> set s \<Longrightarrow> split sep s = [s]"
  by (induction s) auto

lemma split_singleton_Nil: "split sep s = [[]] \<longleftrightarrow> s = []"
  using split_not_Nil [of sep "tl s"]
  by (cases s) (auto split: list.splits)

lemma last_split_Nil: "last (split sep s) = [] \<longleftrightarrow> s = [] \<or> last s = sep"
proof (induction s)
  case Nil
  then show ?case by simp
next
  case (Cons c s)
  show ?case
  proof (cases "c = sep")
    case True
    then show ?thesis
      using Cons split_not_Nil [of sep s] by auto
  next
    case False
    obtain x xs where x: "split sep s = x # xs"
      using split_not_Nil [of sep s] by (cases "split sep s") auto
    show ?thesis
    proof (cases xs)
      case Nil
      then have "last s \<noteq> sep" if "s \<noteq> []"
        using that Cons x split_singleton_Nil [of sep s] by auto
      then show ?thesis
        using False x Nil by auto
    next
      case (Cons y ys)
      then have "s \<noteq> []"
        using x by auto
      then show ?thesis
        using False x Cons Cons.IH by auto
    qed
  qed
qed

lemma last_trim: "trim s \<noteq> [] \<Longrightarrow> \<not> is_js_space (last (trim s))"
proof -
  assume a: "trim s \<noteq> []"
  let ?t = "dropWhile is_js_space (rev (dropWhile is_js_space s))"
  from a have "?t \<noteq> []" by (simp add: trim_def)
  then have "\<not> is_js_space (hd ?t)" by (rule hd_dropWhile)
  moreover have "last (trim s) = hd ?t"
    using \<open>?t \<noteq> []\<close> by (simp add: trim_def last_rev)
  ultimately show ?thesis by simp
qed

text \<open>
  Whatever the probe prints: when the line read as the redirect target is empty, the whole
  trimmed output is empty and the line read as the status is \<^verbatim>\<open>undefined\<close>.  So the
  branch never sees the status \<open>307\<close> together with an empty redirect target.
\<close>

lemma probe_empty_redirect_has_no_status:
  assumes "step1Lines = split (CHR 0x0A) (trim stdout)"
    and "\<not> str_truthy (js_index step1Lines (int (length step1Lines) - 1))"
  shows "js_index step1Lines (int (length step1Lines) - 2) = None"
proof -
  have ne: "step1Lines \<noteq> []"
    using assms(1) by (simp add: split_not_Nil)
  then have "js_index step1Lines (int (length step1Lines) - 1) = Some (last step1Lines)"
    by (cases step1Lines rule: rev_cases) (auto simp add: js_index_def nth_append)
  with assms(2) have "last step1Lines = []"
    by (simp add: str_truthy_def)
  then have "trim stdout = [] \<or> last (trim stdout) = CHR 0x0A"
    using assms(1) by (simp add: last_split_Nil)
  moreover have "last (trim stdout) \<noteq> CHR 0x0A" if "trim stdout \<noteq> []"
    using last_trim [OF that] by (auto simp add: is_js_space_def)
  ultimately have "trim stdout = []" by blast
  then have "step1Lines = [[]]"
    using assms(1) by simp
  then show ?thesis
    by (simp add: js_index_def)
qed

text \<open>
  A response without redirect target, whatever its status code: the probe's output has a
  single line after trimming, and the handler reports \<open>undefined\<close>.
\<close>

lemma probe_lines_without_redirect:
  assumes "code \<noteq> []" and "\<forall>c \<in> set code. \<not> is_js_space c"
  shows "split (CHR 0x0A) (trim (curl_write_out code [])) = [code]"
proof -
  have n: "is_js_space (CHR 0x0A)" by (simp add: is_js_space_def)
  have h: "\<not> is_js_space (hd code)" and l: "\<not> is_js_space (last code)"
    using assms by auto
  have "dropWhile is_js_space (curl_write_out code []) = code @ [CHR 0x0A]"
    using assms(1) h n by (cases code) (simp_all add: curl_write_out_def)
  moreover have "dropWhile is_js_space (rev (code @ [CHR 0x0A])) = rev code"
    using assms(1) l n by (cases code rule: rev_cases) simp_all
  ultimately have "trim (curl_write_out code []) = code"
    by (simp add: trim_def)
  moreover have "CHR 0x0A \<notin> set code"
    using assms(2) n by auto
  ultimately show ?thesis
    by (simp add: split_no_separator)
qed

lemma upload_without_redirect_reports_undefined:
  assumes "str_truthy (DOORAY_API_TOKEN nd)" and "existsSync nd file w"
    and "probe = CurlProbe (endpoint (or_else (DOORAY_API_BASE_URL nd) ''https://api.dooray.com''))
                   (template (DOORAY_API_TOKEN nd)) file"
    and "execAsync nd probe w = (Inr (curl_write_out code []), w')"
    and "code \<noteq> []" and "\<forall>c \<in> set code. \<not> is_js_space c"
  shows "tool_boundary rt (upload_try rt nd endpoint file tail) (start w) =
           (error_result rt (Error ''Unexpected HTTP status: undefined''),
            \<lparr>log = [(probe, Inr (curl_write_out code []))], world = w'\<rparr>)"
  using assms(1-4)
  by (simp add: tool_boundary_def upload_try_def throw_def bind_def reads_def perform_def start_def
        Let_def probe_lines_without_redirect [OF assms(5,6)] js_index_def template_def)

section \<open>Properties of the file download\<close>

lemma extractFilename_absent: "extractFilename nd None = None"
  by (simp add: extractFilename_def str_truthy_def)

lemmas download_unfold =
  download_try_def bind_def effect_def reads_def ret_def start_def Let_def

text \<open>
  The run of the shared \<^verbatim>\<open>try\<close> block when the response has no
  \<^verbatim>\<open>Content-Disposition\<close> header and the save path is directory-style.
\<close>

lemma download_try_generated_name:
  assumes "api call w = (Inr result, w1)"
    and "contentDisposition result = None"
    and "p \<noteq> []"
    and "endsWith_slash p \<or> (existsSync nd p w1 \<and> isDirectory nd p w1 = Inr True)"
    and "download_try rt nd api call idKey ident generatedPrefix (Some p) (start w) = (r, st')"
    and "target = path_join nd p (generatedPrefix @ ident)"
  shows "(\<forall>path d. WriteFile path d \<in> set (log st') \<longrightarrow> path = target \<and> d = data result)
     \<and> (\<forall>t. r = Inr t \<longrightarrow>
           WriteFile target (data result) \<in> set (log st')
         \<and> t = JSON_stringify rt
                (JObject [(''success'', JBool True),
                          (idKey, JString ident),
                          (''filename'', JUndefined),
                          (''contentType'', contentType result),
                          (''contentLength'', contentLength result),
                          (''savedTo'', JString target),
                          (''message'', JString (''File saved to '' @ [CHR 0x22] @ target @ [CHR 0x22]
                                                  @ '' ('' @ toString nd (contentLength result) @ '' bytes)''))]))"
  using assms
  apply (cases "existsSync nd p w1")
   apply (auto simp add: download_unfold str_truthy_def template_def extractFilename_absent
      or_else_def opt_string_json_def split: prod.splits sum.splits if_splits)
  done


lemma tool_boundary_ok:
  assumes "tool_boundary rt blk st = (res, st')" and "isError res = None"
  shows "\<exists>t. blk st = (Inr t, st') \<and> res = ok_result t"
  using assms
  by (auto simp add: tool_boundary_def error_result_def split: prod.splits sum.splits)

lemma tool_boundary_state:
  assumes "tool_boundary rt blk st = (res, st')"
  shows "\<exists>r. blk st = (r, st')"
  using assms
  by (auto simp add: tool_boundary_def split: prod.splits sum.splits)

text \<open>
  The whole run of the shared \<^verbatim>\<open>try\<close> block, as an equation, when the response has
  no \<^verbatim>\<open>Content-Disposition\<close> header, the save path is directory-style and the
  directory is there or can be made: the data is written to the save path joined with the
  generated name, and the outcome of that write decides the result.
\<close>

lemma download_run_generated_name:
  assumes "api call w = (Inr result, w1)"
    and "contentDisposition result = None"
    and "p \<noteq> []"
    and "endsWith_slash p \<or> (existsSync nd p w1 \<and> isDirectory nd p w1 = Inr True)"
    and "existsSync nd p w1 \<or> fst (mkdirSync nd p w1) = Inr ()"
    and "w2 = (if existsSync nd p w1 then w1 else snd (mkdirSync nd p w1))"
    and "target = path_join nd p (generatedPrefix @ ident)"
    and "writeFileSync nd target (data result) w2 = (wr, w3)"
  shows "tool_boundary rt (download_try rt nd api call idKey ident generatedPrefix (Some p)) (start w) =
     ((case wr of
         Inl e \<Rightarrow> \<lparr>tool_result.content = [\<lparr>item_type = ''text'', item_text = Some (''Error: '' @ formatError rt e)\<rparr>],
                   isError = Some True\<rparr>
       | Inr _ \<Rightarrow> \<lparr>tool_result.content =
                     [\<lparr>item_type = ''text'',
                       item_text = JSON_stringify rt
                         (JObject [(''success'', JBool True),
                                   (idKey, JString ident),
                                   (''filename'', JUndefined),
                                   (''contentType'', contentType result),
                                   (''contentLength'', contentLength result),
                                   (''savedTo'', JString target),
                                   (''message'', JString (''File saved to '' @ [CHR 0x22] @ target @ [CHR 0x22]
                                                  @ '' ('' @ toString nd (contentLength result) @ '' bytes)''))])\<rparr>],
                   isError = None\<rparr>),
      \<lparr>log = [Download call] @ (if existsSync nd p w1 then [] else [Mkdir p]) @ [WriteFile target (data result)],
       world = w3\<rparr>)"
proof (cases "existsSync nd p w1")
  case True
  then show ?thesis
    using assms
    by (cases wr)
       (auto simp add: tool_boundary_def download_unfold str_truthy_def template_def extractFilename_absent
          or_else_def opt_string_json_def ok_result_def error_result_def)
next
  case False
  then obtain wm where m: "mkdirSync nd p w1 = (Inr (), wm)"
    using assms(5) by (cases "mkdirSync nd p w1") auto
  with False have "endsWith_slash p" and "w2 = wm"
    using assms(4,6) by auto
  then show ?thesis
    using assms(1,2,3,7,8) False m
    by (cases wr)
       (auto simp add: tool_boundary_def download_unfold str_truthy_def template_def extractFilename_absent
          or_else_def opt_string_json_def ok_result_def error_result_def)
qed

text \<open>
  Claim C7.  When the response of a download carries no \<^verbatim>\<open>Content-Disposition\<close>
  header, the extracted file name is undefined.  If moreover the caller's save path is
  directory-style (it ends in a slash, or it exists and is a directory when the response
  has arrived), then the only path either handler writes to is the save path joined with
  the generated name, \<open>wiki-file-\<close> followed by the \<open>fileId\<close>, respectively
  \<open>wiki-attach-\<close> followed by the \<open>attachFileId\<close>; and a handler that does not end
  in an error has written the downloaded data there.  The last two conjuncts give the whole
  run: once the directory is there, or has been made without failure, the handler does
  write the data under the generated name, the calls logged are the download, the
  \<^verbatim>\<open>mkdir\<close> if the directory was missing, and that write, and the result is the
  success envelope naming that path as \<open>savedTo\<close> with no \<open>filename\<close>, or the error
  envelope of the write if the write fails.
\<close>

theorem download_without_content_disposition:
  "(contentDisposition result = None \<longrightarrow> extractFilename nd (contentDisposition result) = None)
   \<and> (contentDisposition result = None
       \<and> api (DownloadWikiPageFile (download_wiki_page_file_input.wikiId a) (download_wiki_page_file_input.pageId a) (fileId a)) w
           = (Inr result, w1)
       \<and> download_wiki_page_file_input.savePath a = Some p \<and> p \<noteq> []
       \<and> (endsWith_slash p \<or> (existsSync nd p w1 \<and> isDirectory nd p w1 = Inr True))
       \<and> downloadWikiPageFileHandler rt nd api a (start w) = (res, st')
       \<longrightarrow> (\<forall>path d. WriteFile path d \<in> set (log st') \<longrightarrow>
               path = path_join nd p (''wiki-file-'' @ fileId a))
           \<and> (isError res = None \<longrightarrow>
                 WriteFile (path_join nd p (''wiki-file-'' @ fileId a)) (data result) \<in> set (log st')))
   \<and> (contentDisposition result = None
       \<and> api (DownloadWikiAttachFile (download_wiki_attach_file_input.wikiId b) (attachFileId b)) w
           = (Inr result, w1)
       \<and> download_wiki_attach_file_input.savePath b = Some p \<and> p \<noteq> []
       \<and> (endsWith_slash p \<or> (existsSync nd p w1 \<and> isDirectory nd p w1 = Inr True))
       \<and> downloadWikiAttachFileHandler rt nd api b (start w) = (res, st')
       \<longrightarrow> (\<forall>path d. WriteFile path d \<in> set (log st') \<longrightarrow>
               path = path_join nd p (''wiki-attach-'' @ attachFileId b))
           \<and> (isError res = None \<longrightarrow>
                 WriteFile (path_join nd p (''wiki-attach-'' @ attachFileId b)) (data result) \<in> set (log st')))
   \<and> (contentDisposition result = None
       \<and> api (DownloadWikiPageFile (download_wiki_page_file_input.wikiId a) (download_wiki_page_file_input.pageId a) (fileId a)) w
           = (Inr result, w1)
       \<and> download_wiki_page_file_input.savePath a = Some p \<and> p \<noteq> []
       \<and> (endsWith_slash p \<or> (existsSync nd p w1 \<and> isDirectory nd p w1 = Inr True))
       \<and> (existsSync nd p w1 \<or> fst (mkdirSync nd p w1) = Inr ())
       \<and> w2 = (if existsSync nd p w1 then w1 else snd (mkdirSync nd p w1))
       \<and> writeFileSync nd (path_join nd p (''wiki-file-'' @ fileId a)) (data result) w2 = (wr, w3)
       \<longrightarrow> downloadWikiPageFileHandler rt nd api a (start w) =
            ((case wr of
                Inl e \<Rightarrow> \<lparr>tool_result.content = [\<lparr>item_type = ''text'', item_text = Some (''Error: '' @ formatError rt e)\<rparr>],
                          isError = Some True\<rparr>
              | Inr _ \<Rightarrow> \<lparr>tool_result.content =
                            [\<lparr>item_type = ''text'',
                              item_text = JSON_stringify rt
                                (JObject [(''success'', JBool True),
                                          (''fileId'', JString (fileId a)),
                                          (''filename'', JUndefined),
                                          (''contentType'', contentType result),
                                          (''contentLength'', contentLength result),
                                          (''savedTo'', JString (path_join nd p (''wiki-file-'' @ fileId a))),
                                          (''message'', JString (''File saved to '' @ [CHR 0x22]
                                             @ path_join nd p (''wiki-file-'' @ fileId a) @ [CHR 0x22]
                                             @ '' ('' @ toString nd (contentLength result) @ '' bytes)''))])\<rparr>],
                          isError = None\<rparr>),
             \<lparr>log = [Download (DownloadWikiPageFile (download_wiki_page_file_input.wikiId a)
                                (download_wiki_page_file_input.pageId a) (fileId a))]
                     @ (if existsSync nd p w1 then [] else [Mkdir p])
                     @ [WriteFile (path_join nd p (''wiki-file-'' @ fileId a)) (data result)],
              world = w3\<rparr>))
   \<and> (contentDisposition result = None
       \<and> api (DownloadWikiAttachFile (download_wiki_attach_file_input.wikiId b) (attachFileId b)) w
           = (Inr result, w1)
       \<and> download_wiki_attach_file_input.savePath b = Some p \<and> p \<noteq> []
       \<and> (endsWith_slash p \<or> (existsSync nd p w1 \<and> isDirectory nd p w1 = Inr True))
       \<and> (existsSync nd p w1 \<or> fst (mkdirSync nd p w1) = Inr ())
       \<and> w2 = (if existsSync nd p w1 then w1 else snd (mkdirSync nd p w1))
       \<and> writeFileSync nd (path_join nd p (''wiki-attach-'' @ attachFileId b)) (data result) w2 = (wr, w3)
       \<longrightarrow> downloadWikiAttachFileHandler rt nd api b (start w) =
            ((case wr of
                Inl e \<Rightarrow> \<lparr>tool_result.content = [\<lparr>item_type = ''text'', item_text = Some (''Error: '' @ formatError rt e)\<rparr>],
                          isError = Some True\<rparr>
              | Inr _ \<Rightarrow> \<lparr>tool_result.content =
                            [\<lparr>item_type = ''text'',
                              item_text = JSON_stringify rt
                                (JObject [(''success'', JBool True),
                                          (''attachFileId'', JString (attachFileId b)),
                                          (''filename'', JUndefined),
                                          (''contentType'', contentType result),
                                          (''contentLength'', contentLength result),
                                          (''savedTo'', JString (path_join nd p (''wiki-attach-'' @ attachFileId b))),
                                          (''message'', JString (''File saved to '' @ [CHR 0x22]
                                             @ path_join nd p (''wiki-attach-'' @ attachFileId b) @ [CHR 0x22]
                                             @ '' ('' @ toString nd (contentLength result) @ '' bytes)''))])\<rparr>],
                          isError = None\<rparr>),
             \<lparr>log = [Download (DownloadWikiAttachFile (download_wiki_attach_file_input.wikiId b) (attachFileId b))]
                     @ (if existsSync nd p w1 then [] else [Mkdir p])
                     @ [WriteFile (path_join nd p (''wiki-attach-'' @ attachFileId b)) (data result)],
              world = w3\<rparr>))"

proof (intro conjI impI)
  assume "contentDisposition result = None"
  then show "extractFilename nd (contentDisposition result) = None"
    by (simp add: extractFilename_absent)
next
  assume h: "contentDisposition result = None
       \<and> api (DownloadWikiPageFile (download_wiki_page_file_input.wikiId a) (download_wiki_page_file_input.pageId a) (fileId a)) w
           = (Inr result, w1)
       \<and> download_wiki_page_file_input.savePath a = Some p \<and> p \<noteq> []
       \<and> (endsWith_slash p \<or> (existsSync nd p w1 \<and> isDirectory nd p w1 = Inr True))
       \<and> downloadWikiPageFileHandler rt nd api a (start w) = (res, st')"
  then have hb: "tool_boundary rt (download_try rt nd api
        (DownloadWikiPageFile (download_wiki_page_file_input.wikiId a) (download_wiki_page_file_input.pageId a) (fileId a))
        ''fileId'' (fileId a) ''wiki-file-'' (Some p)) (start w) = (res, st')"
    by (auto simp add: downloadWikiPageFileHandler_def)
  from tool_boundary_state [OF hb]
  obtain r where r: "download_try rt nd api
        (DownloadWikiPageFile (download_wiki_page_file_input.wikiId a) (download_wiki_page_file_input.pageId a) (fileId a))
        ''fileId'' (fileId a) ''wiki-file-'' (Some p) (start w) = (r, st')"
    by blast
  note g = download_try_generated_name [OF _ _ _ _ r refl]
  show "\<forall>path d. WriteFile path d \<in> set (log st') \<longrightarrow> path = path_join nd p (''wiki-file-'' @ fileId a)"
    using g h by blast
  assume "isError res = None"
  then have "\<exists>t. r = Inr t"
    using r tool_boundary_ok [OF hb] by auto
  then show "WriteFile (path_join nd p (''wiki-file-'' @ fileId a)) (data result) \<in> set (log st')"
    using g h by blast
next
  assume h: "contentDisposition result = None
       \<and> api (DownloadWikiAttachFile (download_wiki_attach_file_input.wikiId b) (attachFileId b)) w
           = (Inr result, w1)
       \<and> download_wiki_attach_file_input.savePath b = Some p \<and> p \<noteq> []
       \<and> (endsWith_slash p \<or> (existsSync nd p w1 \<and> isDirectory nd p w1 = Inr True))
       \<and> downloadWikiAttachFileHandler rt nd api b (start w) = (res, st')"
  then have hb: "tool_boundary rt (download_try rt nd api
        (DownloadWikiAttachFile (download_wiki_attach_file_input.wikiId b) (attachFileId b))
        ''attachFileId'' (attachFileId b) ''wiki-attach-'' (Some p)) (start w) = (res, st')"
    by (auto simp add: downloadWikiAttachFileHandler_def)
  from tool_boundary_state [OF hb]
  obtain r where r: "download_try rt nd api
        (DownloadWikiAttachFile (download_wiki_attach_file_input.wikiId b) (attachFileId b))
        ''attachFileId'' (attachFileId b) ''wiki-attach-'' (Some p) (start w) = (r, st')"
    by blast
  note g = download_try_generated_name [OF _ _ _ _ r refl]
  show "\<forall>path d. WriteFile path d \<in> set (log st') \<longrightarrow> path = path_join nd p (''wiki-attach-'' @ attachFileId b)"
    using g h by blast
  assume "isError res = None"
  then have "\<exists>t. r = Inr t"
    using r tool_boundary_ok [OF hb] by auto
  then show "WriteFile (path_join nd p (''wiki-attach-'' @ attachFileId b)) (data result) \<in> set (log st')"
    using g h by blast
next
  assume h: "contentDisposition result = None
       \<and> api (DownloadWikiPageFile (download_wiki_page_file_input.wikiId a) (download_wiki_page_file_input.pageId a) (fileId a)) w
           = (Inr result, w1)
       \<and> download_wiki_page_file_input.savePath a = Some p \<and> p \<noteq> []
       \<and> (endsWith_slash p \<or> (existsSync nd p w1 \<and> isDirectory nd p w1 = Inr True))
       \<and> (existsSync nd p w1 \<or> fst (mkdirSync nd p w1) = Inr ())
       \<and> w2 = (if existsSync nd p w1 then w1 else snd (mkdirSync nd p w1))
       \<and> writeFileSync nd (path_join nd p (''wiki-file-'' @ fileId a)) (data result) w2 = (wr, w3)"
  then have sp: "download_wiki_page_file_input.savePath a = Some p"
    by simp
  show "downloadWikiPageFileHandler rt nd api a (start w) =
            ((case wr of
                Inl e \<Rightarrow> \<lparr>tool_result.content = [\<lparr>item_type = ''text'', item_text = Some (''Error: '' @ formatError rt e)\<rparr>],
                          isError = Some True\<rparr>
              | Inr _ \<Rightarrow> \<lparr>tool_result.content =
                            [\<lparr>item_type = ''text'',
                              item_text = JSON_stringify rt
                                (JObject [(''success'', JBool True),
                                          (''fileId'', JString (fileId a)),
                                          (''filename'', JUndefined),
                                          (''contentType'', contentType result),
                                          (''contentLength'', contentLength result),
                                          (''savedTo'', JString (path_join nd p (''wiki-file-'' @ fileId a))),
                                          (''message'', JString (''File saved to '' @ [CHR 0x22]
                                             @ path_join nd p (''wiki-file-'' @ fileId a) @ [CHR 0x22]
                                             @ '' ('' @ toString nd (contentLength result) @ '' bytes)''))])\<rparr>],
                          isError = None\<rparr>),
             \<lparr>log = [Download (DownloadWikiPageFile (download_wiki_page_file_input.wikiId a)
                                (download_wiki_page_file_input.pageId a) (fileId a))]
                     @ (if existsSync nd p w1 then [] else [Mkdir p])
                     @ [WriteFile (path_join nd p (''wiki-file-'' @ fileId a)) (data result)],
              world = w3\<rparr>)"
    unfolding downloadWikiPageFileHandler_def sp
    by (rule download_run_generated_name
          [where api = api and w = w and generatedPrefix = "''wiki-file-''" and ident = "fileId a"
             and call = "DownloadWikiPageFile (download_wiki_page_file_input.wikiId a) (download_wiki_page_file_input.pageId a) (fileId a)",
           OF h [THEN conjunct2, THEN conjunct1]
              h [THEN conjunct1]
              h [THEN conjunct2, THEN conjunct2, THEN conjunct2, THEN conjunct1]
              h [THEN conjunct2, THEN conjunct2, THEN conjunct2, THEN conjunct2, THEN conjunct1]
              h [THEN conjunct2, THEN conjunct2, THEN conjunct2, THEN conjunct2, THEN conjunct2, THEN conjunct1]
              h [THEN conjunct2, THEN conjunct2, THEN conjunct2, THEN conjunct2, THEN conjunct2, THEN conjunct2, THEN conjunct1]
              refl
              h [THEN conjunct2, THEN conjunct2, THEN conjunct2, THEN conjunct2, THEN conjunct2, THEN conjunct2, THEN conjunct2]])
next
  assume h: "contentDisposition result = None
       \<and> api (DownloadWikiAttachFile (download_wiki_attach_file_input.wikiId b) (attachFileId b)) w
           = (Inr result, w1)
       \<and> download_wiki_attach_file_input.savePath b = Some p \<and> p \<noteq> []
       \<and> (endsWith_slash p \<or> (existsSync nd p w1 \<and> isDirectory nd p w1 = Inr True))
       \<and> (existsSync nd p w1 \<or> fst (mkdirSync nd p w1) = Inr ())
       \<and> w2 = (if existsSync nd p w1 then w1 else snd (mkdirSync nd p w1))
       \<and> writeFileSync nd (path_join nd p (''wiki-attach-'' @ attachFileId b)) (data result) w2 = (wr, w3)"
  then have sp: "download_wiki_attach_file_input.savePath b = Some p"
    by simp
  show "downloadWikiAttachFileHandler rt nd api b (start w) =
            ((case wr of
                Inl e \<Rightarrow> \<lparr>tool_result.content = [\<lparr>item_type = ''text'', item_text = Some (''Error: '' @ formatError rt e)\<rparr>],
                          isError = Some True\<rparr>
              | Inr _ \<Rightarrow> \<lparr>tool_result.content =
                            [\<lparr>item_type = ''text'',
                              item_text = JSON_stringify rt
                                (JObject [(''success'', JBool True),
                                          (''attachFileId'', JString (attachFileId b)),
                                          (''filename'', JUndefined),
                                          (''contentType'', contentType result),
                                          (''contentLength'', contentLength result),
                                          (''savedTo'', JString (path_join nd p (''wiki-attach-'' @ attachFileId b))),
                                          (''message'', JString (''File saved to '' @ [CHR 0x22]
                                             @ path_join nd p (''wiki-attach-'' @ attachFileId b) @ [CHR 0x22]
                                             @ '' ('' @ toString nd (contentLength result) @ '' bytes)''))])\<rparr>],
                          isError = None\<rparr>),
             \<lparr>log = [Download (DownloadWikiAttachFile (download_wiki_attach_file_input.wikiId b) (attachFileId b))]
                     @ (if existsSync nd p w1 then [] else [Mkdir p])
                     @ [WriteFile (path_join nd p (''wiki-attach-'' @ attachFileId b)) (data result)],
              world = w3\<rparr>)"
    unfolding downloadWikiAttachFileHandler_def sp
    by (rule download_run_generated_name
          [where api = api and w = w and generatedPrefix = "''wiki-attach-''" and ident = "attachFileId b"
             and call = "DownloadWikiAttachFile (download_wiki_attach_file_input.wikiId b) (attachFileId b)",
           OF h [THEN conjunct2, THEN conjunct1]
              h [THEN conjunct1]
              h [THEN conjunct2, THEN conjunct2, THEN conjunct2, THEN conjunct1]
              h [THEN conjunct2, THEN conjunct2, THEN conjunct2, THEN conjunct2, THEN conjunct1]
              h [THEN conjunct2, THEN conjunct2, THEN conjunct2, THEN conjunct2, THEN conjunct2, THEN conjunct1]
              h [THEN conjunct2, THEN conjunct2, THEN conjunct2, THEN conjunct2, THEN conjunct2, THEN conjunct2, THEN conjunct1]
              refl
              h [THEN conjunct2, THEN conjunct2, THEN conjunct2, THEN conjunct2, THEN conjunct2, THEN conjunct2, THEN conjunct2]])
qed

lemma demo_run_download_page:
  "downloadWikiPageFileHandler demo_runtime (demo_node None []) demo_download_api
     \<lparr>download_wiki_page_file_input.wikiId = ''123'', download_wiki_page_file_input.pageId = ''456'',
      fileId = ''789'', download_wiki_page_file_input.savePath = Some ''/tmp/''\<rparr> (start demo_files)
   = (ok_result (Some ''{}''),
      \<lparr>log = [Download (DownloadWikiPageFile ''123'' ''456'' ''789''), Mkdir ''/tmp/'',
              WriteFile ''/tmp/wiki-file-789'' [1, 2, 3]],
       world = [(''/tmp/wiki-file-789'', False), (''/tmp/'', True), (''/tmp'', True), (''/tmp/a.txt'', False), (''/readonly'', True)]\<rparr>)"
  by (simp add: downloadWikiPageFileHandler_def tool_boundary_def download_unfold str_truthy_def
        template_def extractFilename_absent or_else_def opt_string_json_def demo_node_def
        demo_download_api_def demo_download_def demo_files_def demo_runtime_def endsWith_slash_def)

lemma demo_run_download_attach:
  "downloadWikiAttachFileHandler demo_runtime (demo_node None []) demo_download_api
     \<lparr>download_wiki_attach_file_input.wikiId = ''123'', attachFileId = ''456'',
      download_wiki_attach_file_input.savePath = Some ''/tmp''\<rparr> (start demo_files)
   = (ok_result (Some ''{}''),
      \<lparr>log = [Download (DownloadWikiAttachFile ''123'' ''456''),
              WriteFile ''/tmp/wiki-attach-456'' [1, 2, 3]],
       world = [(''/tmp/wiki-attach-456'', False), (''/tmp'', True), (''/tmp/a.txt'', False), (''/readonly'', True)]\<rparr>)"
  by (simp add: downloadWikiAttachFileHandler_def tool_boundary_def download_unfold str_truthy_def
        template_def extractFilename_absent or_else_def opt_string_json_def demo_node_def
        demo_download_api_def demo_download_def demo_files_def demo_runtime_def endsWith_slash_def)

theorem download_without_content_disposition_witness:
  "contentDisposition demo_download = None
   \<and> extractFilename (demo_node None []) (contentDisposition demo_download) = None
   \<and> downloadWikiPageFileHandler demo_runtime (demo_node None []) demo_download_api
        \<lparr>download_wiki_page_file_input.wikiId = ''123'', download_wiki_page_file_input.pageId = ''456'',
         fileId = ''789'', download_wiki_page_file_input.savePath = Some ''/tmp/''\<rparr> (start demo_files)
      = (\<lparr>tool_result.content = [\<lparr>item_type = ''text'', item_text = Some ''{}''\<rparr>], isError = None\<rparr>,
         \<lparr>log = [Download (DownloadWikiPageFile ''123'' ''456'' ''789''), Mkdir ''/tmp/'',
                 WriteFile ''/tmp/wiki-file-789'' [1, 2, 3]],
          world = [(''/tmp/wiki-file-789'', False), (''/tmp/'', True), (''/tmp'', True), (''/tmp/a.txt'', False), (''/readonly'', True)]\<rparr>)
   \<and> downloadWikiAttachFileHandler demo_runtime (demo_node None []) demo_download_api
        \<lparr>download_wiki_attach_file_input.wikiId = ''123'', attachFileId = ''456'',
         download_wiki_attach_file_input.savePath = Some ''/tmp''\<rparr> (start demo_files)
      = (\<lparr>tool_result.content = [\<lparr>item_type = ''text'', item_text = Some ''{}''\<rparr>], isError = None\<rparr>,
         \<lparr>log = [Download (DownloadWikiAttachFile ''123'' ''456''),
                 WriteFile ''/tmp/wiki-attach-456'' [1, 2, 3]],
          world = [(''/tmp/wiki-attach-456'', False), (''/tmp'', True), (''/tmp/a.txt'', False), (''/readonly'', True)]\<rparr>)
   \<and> WriteFile ''/tmp/wiki-file-789'' [1, 2, 3]
       \<in> set [Download (DownloadWikiPageFile ''123'' ''456'' ''789''), Mkdir ''/tmp/'',
               WriteFile ''/tmp/wiki-file-789'' [1, 2, 3]]
   \<and> WriteFile ''/tmp/wiki-attach-456'' [1, 2, 3]
       \<in> set [Download (DownloadWikiAttachFile ''123'' ''456''), WriteFile ''/tmp/wiki-attach-456'' [1, 2, 3]]"
proof -
  let ?a = "\<lparr>download_wiki_page_file_input.wikiId = ''123'', download_wiki_page_file_input.pageId = ''456'',
             fileId = ''789'', download_wiki_page_file_input.savePath = Some ''/tmp/''\<rparr>"
  let ?b = "\<lparr>download_wiki_attach_file_input.wikiId = ''123'', attachFileId = ''456'',
             download_wiki_attach_file_input.savePath = Some ''/tmp''\<rparr>"
  let ?sp = "\<lparr>log = [Download (DownloadWikiPageFile ''123'' ''456'' ''789''), Mkdir ''/tmp/'',
                     WriteFile ''/tmp/wiki-file-789'' [1, 2, 3]],
               world = [(''/tmp/wiki-file-789'', False), (''/tmp/'', True), (''/tmp'', True), (''/tmp/a.txt'', False), (''/readonly'', True)]\<rparr>"
  let ?sa = "\<lparr>log = [Download (DownloadWikiAttachFile ''123'' ''456''),
                     WriteFile ''/tmp/wiki-attach-456'' [1, 2, 3]],
               world = [(''/tmp/wiki-attach-456'', False), (''/tmp'', True), (''/tmp/a.txt'', False), (''/readonly'', True)]\<rparr>"
  note P = download_without_content_disposition
      [where result = demo_download and nd = "demo_node None []" and api = demo_download_api
         and a = ?a and w = demo_files and ?w1.0 = demo_files and p = "''/tmp/''" and rt = demo_runtime
         and ?w2.0 = "(''/tmp/'', True) # demo_files" and wr = "Inr ()"
         and ?w3.0 = "(''/tmp/wiki-file-789'', False) # (''/tmp/'', True) # demo_files"
         and res = "ok_result (Some ''{}'')" and st' = ?sp]
  note A = download_without_content_disposition
      [where result = demo_download and nd = "demo_node None []" and api = demo_download_api
         and b = ?b and w = demo_files and ?w1.0 = demo_files and p = "''/tmp''" and rt = demo_runtime
         and ?w2.0 = demo_files and wr = "Inr ()"
         and ?w3.0 = "(''/tmp/wiki-attach-456'', False) # demo_files"
         and res = "ok_result (Some ''{}'')" and st' = ?sa]
  have c0: "contentDisposition demo_download = None"
    by (simp add: demo_download_def)
  have c1: "extractFilename (demo_node None []) (contentDisposition demo_download) = None"
    by (rule P [THEN conjunct1, THEN mp]) (rule c0)
  have c4: "downloadWikiPageFileHandler demo_runtime (demo_node None []) demo_download_api ?a (start demo_files)
      = (\<lparr>tool_result.content = [\<lparr>item_type = ''text'', item_text = Some ''{}''\<rparr>], isError = None\<rparr>, ?sp)"
    using P [THEN conjunct2, THEN conjunct2, THEN conjunct2, THEN conjunct1]
    by (simp add: demo_download_def demo_download_api_def demo_node_def demo_files_def
          endsWith_slash_def demo_runtime_def)
  have c5: "downloadWikiAttachFileHandler demo_runtime (demo_node None []) demo_download_api ?b (start demo_files)
      = (\<lparr>tool_result.content = [\<lparr>item_type = ''text'', item_text = Some ''{}''\<rparr>], isError = None\<rparr>, ?sa)"
    using A [THEN conjunct2, THEN conjunct2, THEN conjunct2, THEN conjunct2]
    by (simp add: demo_download_def demo_download_api_def demo_node_def demo_files_def
          endsWith_slash_def demo_runtime_def)
  have c2: "WriteFile (path_join (demo_node None []) ''/tmp/'' (''wiki-file-'' @ fileId ?a)) (data demo_download) \<in> set (log ?sp)"
    using P [THEN conjunct2, THEN conjunct1] demo_run_download_page
    by (simp add: demo_download_def demo_download_api_def demo_node_def demo_files_def
          endsWith_slash_def ok_result_def)
  have c3: "WriteFile (path_join (demo_node None []) ''/tmp'' (''wiki-attach-'' @ attachFileId ?b)) (data demo_download) \<in> set (log ?sa)"
    using A [THEN conjunct2, THEN conjunct2, THEN conjunct1] demo_run_download_attach
    by (simp add: demo_download_def demo_download_api_def demo_node_def demo_files_def
          endsWith_slash_def ok_result_def)
  show ?thesis
    using c0 c1 c2 c3 c4 c5 by simp
qed

section \<open>Properties of the tool boundary\<close>

lemma tool_boundary_envelope:
  "envelope_of rt (fst (blk st)) (fst (tool_boundary rt blk st))
   \<and> snd (tool_boundary rt blk st) = snd (blk st)"
  by (cases "blk st"; cases "fst (blk st)")
     (simp_all add: tool_boundary_def envelope_of_def ok_result_def error_result_def
        is_success_envelope_def is_error_envelope_def)

lemma update_task_failure_envelope:
  assumes "(c, Inl e) \<in> set (log (snd (updateTaskHandler rt api convert args (start w))))"
  shows "fst (updateTaskHandler rt api convert args (start w)) = error_result rt e"
  using assms
  apply (cases "buildUpdateParams convert args = []"; cases "workflowId args"; cases "parentPostId args")
         apply (simp_all add: handler_unfold split: sum.splits prod.splits if_splits)
         apply auto
  done

lemma update_wiki_page_failure_envelope:
  assumes "client (Put (''/wiki/v1/wikis/'' @ update_wiki_page_input.wikiId args @ ''/pages/'' @ update_wiki_page_input.pageId args)
                       (updateWikiPage_requestBody (updateWikiPage_params args))) w = (Inl e, w')"
  shows "updateWikiPageHandler rt client args (start w) =
           (error_result rt e,
            \<lparr>log = [(Put (''/wiki/v1/wikis/'' @ update_wiki_page_input.wikiId args @ ''/pages/'' @ update_wiki_page_input.pageId args)
                           (updateWikiPage_requestBody (updateWikiPage_params args)), Inl e)],
             world = w'\<rparr>)"
  using assms
  by (simp add: updateWikiPageHandler_def tool_boundary_def updateWikiPage_try_def updateWikiPage_def
        bind_def perform_def ret_def start_def WIKI_BASE_def updateWikiPage_params_def)

lemma upload_envelope_rejected:
  assumes "str_truthy (DOORAY_API_TOKEN nd)" and "existsSync nd file w"
    and "execAsync nd (CurlProbe (endpoint (or_else (DOORAY_API_BASE_URL nd) ''https://api.dooray.com''))
                         (template (DOORAY_API_TOKEN nd)) file) w = (Inr stdout, w1)"
    and "split (CHR 0x0A) (trim stdout) = [''307'', url]" and "url \<noteq> []"
    and "execAsync nd (CurlPost url (template (DOORAY_API_TOKEN nd)) file) w1 = (Inr out, w2)"
    and "JSON_parse nd out = Inr response"
    and "check_envelope nd response = Inl e"
  shows "fst (tool_boundary rt (upload_try rt nd endpoint file tail) (start w)) = error_result rt e"
  using assms
  by (simp add: tool_boundary_def upload_try_def throw_def bind_def reads_def perform_def lift_def
        start_def Let_def js_index_def str_truthy_def template_def)

lemma download_write_failure:
  assumes "api call w = (Inr result, w1)"
    and "p \<noteq> []" and "\<not> endsWith_slash p" and "\<not> existsSync nd p w1"
    and "existsSync nd (path_dirname nd p) w1"
    and "writeFileSync nd p (data result) w1 = (Inl e, w2)"
  shows "tool_boundary rt (download_try rt nd api call idKey ident generatedPrefix (Some p)) (start w) =
           (error_result rt e, \<lparr>log = [Download call, WriteFile p (data result)], world = w2\<rparr>)"
  using assms
  by (simp add: tool_boundary_def download_unfold str_truthy_def template_def)


text \<open>
  Claim C8.  Every tool handler returns the envelope its \<^verbatim>\<open>try\<close> block calls for: when
  the block throws \<open>e\<close>, the result is
  \<^verbatim>\<open>{ content: [{ type: 'text', text: 'Error: ' + formatError(e) }], isError: true }\<close>, and when
  it completes, the result is the same content shape around the produced text, without
  \<open>isError\<close>.  The handler itself always returns a result.  The first four conjuncts
  follow failures of each kind to the envelope: a rejected API call in update-task and in
  update-wiki-page, an upload envelope that fails validation, and a failing local file
  write in a download.  The others state the envelope for each of the sixteen handlers.
\<close>

theorem tool_boundary_envelopes:
  "((c, Inl e1) \<in> set (log (snd (updateTaskHandler rt papi convert ut (start w1)))) \<longrightarrow>
        fst (updateTaskHandler rt papi convert ut (start w1)) = error_result rt e1)
   \<and> (client (Put (''/wiki/v1/wikis/'' @ update_wiki_page_input.wikiId uwp @ ''/pages/'' @ update_wiki_page_input.pageId uwp)
                   (updateWikiPage_requestBody (updateWikiPage_params uwp))) w3 = (Inl e2, w3') \<longrightarrow>
        fst (updateWikiPageHandler rt client uwp (start w3)) = error_result rt e2)
   \<and> (str_truthy (DOORAY_API_TOKEN nd) \<and> existsSync nd (upload_wiki_file_input.filePath uwf) w5
       \<and> execAsync nd (CurlProbe (or_else (DOORAY_API_BASE_URL nd) ''https://api.dooray.com''
                                    @ ''/wiki/v1/wikis/'' @ upload_wiki_file_input.wikiId uwf @ ''/files'')
                          (template (DOORAY_API_TOKEN nd)) (upload_wiki_file_input.filePath uwf)) w5 = (Inr stdout, w5')
       \<and> split (CHR 0x0A) (trim stdout) = [''307'', url] \<and> url \<noteq> []
       \<and> execAsync nd (CurlPost url (template (DOORAY_API_TOKEN nd)) (upload_wiki_file_input.filePath uwf)) w5' = (Inr out, w5'')
       \<and> JSON_parse nd out = Inr response
       \<and> check_envelope nd response = Inl e3 \<longrightarrow>
        fst (uploadWikiFileHandler rt nd uwf (start w5)) = error_result rt e3)
   \<and> (dapi (DownloadWikiPageFile (download_wiki_page_file_input.wikiId dwf)
               (download_wiki_page_file_input.pageId dwf) (fileId dwf)) w6 = (Inr result, w6')
       \<and> download_wiki_page_file_input.savePath dwf = Some p \<and> p \<noteq> []
       \<and> \<not> endsWith_slash p \<and> \<not> existsSync nd p w6' \<and> existsSync nd (path_dirname nd p) w6'
       \<and> writeFileSync nd p (data result) w6' = (Inl e4, w6'') \<longrightarrow>
        fst (downloadWikiPageFileHandler rt nd dapi dwf (start w6)) = error_result rt e4)
   \<and> envelope_of rt (fst (updateTask_try rt papi convert ut s1)) (fst (updateTaskHandler rt papi convert ut s1))
   \<and> envelope_of rt (fst (createTask_try rt capi convert ct s2)) (fst (createTaskHandler rt capi convert ct s2))
   \<and> envelope_of rt (fst (updateWikiPage_try rt client uwp s3)) (fst (updateWikiPageHandler rt client uwp s3))
   \<and> envelope_of rt (fst (createWikiPage_try rt client cwp s3)) (fst (createWikiPageHandler rt client cwp s3))
   \<and> envelope_of rt (fst (getWikiPage_try rt client gwp s3)) (fst (getWikiPageHandler rt client gwp s3))
   \<and> envelope_of rt (fst (getWikiPageList_try rt client gwpl s3)) (fst (getWikiPageListHandler rt client gwpl s3))
   \<and> envelope_of rt (fst (getWikiComment_try rt client gwc s3)) (fst (getWikiCommentHandler rt client gwc s3))
   \<and> envelope_of rt (fst (getWikiCommentList_try rt client gwcl s3)) (fst (getWikiCommentListHandler rt client gwcl s3))
   \<and> envelope_of rt (fst (createWikiComment_try rt client cwc s3)) (fst (createWikiCommentHandler rt client cwc s3))
   \<and> envelope_of rt (fst (updateWikiComment_try rt client uwc s3)) (fst (updateWikiCommentHandler rt client uwc s3))
   \<and> envelope_of rt (fst (deleteWikiComment_try rt client dwc s3)) (fst (deleteWikiCommentHandler rt client dwc s3))
   \<and> envelope_of rt (fst (deleteWikiPageFile_try rt fapi dwpf s4)) (fst (deleteWikiPageFileHandler rt fapi dwpf s4))
   \<and> envelope_of rt
        (fst (upload_try rt nd
                (\<lambda>baseUrl. baseUrl @ ''/wiki/v1/wikis/'' @ upload_wiki_file_input.wikiId uwf @ ''/files'')
                (upload_wiki_file_input.filePath uwf)
                '' successfully uploaded to wiki. Use attachFileId when creating a wiki page with attachments.'' s5))
        (fst (uploadWikiFileHandler rt nd uwf s5))
   \<and> envelope_of rt
        (fst (upload_try rt nd
                (\<lambda>baseUrl. baseUrl @ ''/wiki/v1/wikis/'' @ upload_wiki_page_file_input.wikiId uwpf
                             @ ''/pages/'' @ upload_wiki_page_file_input.pageId uwpf @ ''/files'')
                (upload_wiki_page_file_input.filePath uwpf)
                '' successfully uploaded to wiki page.'' s5))
        (fst (uploadWikiPageFileHandler rt nd uwpf s5))
   \<and> envelope_of rt
        (fst (download_try rt nd dapi
                (DownloadWikiPageFile (download_wiki_page_file_input.wikiId dwf)
                   (download_wiki_page_file_input.pageId dwf) (fileId dwf))
                ''fileId'' (fileId dwf) ''wiki-file-'' (download_wiki_page_file_input.savePath dwf) s6))
        (fst (downloadWikiPageFileHandler rt nd dapi dwf s6))
   \<and> envelope_of rt
        (fst (download_try rt nd dapi
                (DownloadWikiAttachFile (download_wiki_attach_file_input.wikiId dwaf) (attachFileId dwaf))
                ''attachFileId'' (attachFileId dwaf) ''wiki-attach-'' (download_wiki_attach_file_input.savePath dwaf) s6))
        (fst (downloadWikiAttachFileHandler rt nd dapi dwaf s6))"
proof -
  note defs = updateTaskHandler_def createTaskHandler_def updateWikiPageHandler_def
    createWikiPageHandler_def getWikiPageHandler_def getWikiPageListHandler_def
    getWikiCommentHandler_def getWikiCommentListHandler_def createWikiCommentHandler_def
    updateWikiCommentHandler_def deleteWikiCommentHandler_def deleteWikiPageFileHandler_def
    uploadWikiFileHandler_def uploadWikiPageFileHandler_def downloadWikiPageFileHandler_def
    downloadWikiAttachFileHandler_def
  have a: "(c, Inl e1) \<in> set (log (snd (updateTaskHandler rt papi convert ut (start w1)))) \<longrightarrow>
        fst (updateTaskHandler rt papi convert ut (start w1)) = error_result rt e1"
    by (rule impI, rule update_task_failure_envelope)
  have b: "client (Put (''/wiki/v1/wikis/'' @ update_wiki_page_input.wikiId uwp @ ''/pages/'' @ update_wiki_page_input.pageId uwp)
                   (updateWikiPage_requestBody (updateWikiPage_params uwp))) w3 = (Inl e2, w3') \<longrightarrow>
        fst (updateWikiPageHandler rt client uwp (start w3)) = error_result rt e2"
    by (simp add: update_wiki_page_failure_envelope)
  have c: "str_truthy (DOORAY_API_TOKEN nd) \<and> existsSync nd (upload_wiki_file_input.filePath uwf) w5
       \<and> execAsync nd (CurlProbe (or_else (DOORAY_API_BASE_URL nd) ''https://api.dooray.com''
                                    @ ''/wiki/v1/wikis/'' @ upload_wiki_file_input.wikiId uwf @ ''/files'')
                          (template (DOORAY_API_TOKEN nd)) (upload_wiki_file_input.filePath uwf)) w5 = (Inr stdout, w5')
       \<and> split (CHR 0x0A) (trim stdout) = [''307'', url] \<and> url \<noteq> []
       \<and> execAsync nd (CurlPost url (template (DOORAY_API_TOKEN nd)) (upload_wiki_file_input.filePath uwf)) w5' = (Inr out, w5'')
       \<and> JSON_parse nd out = Inr response
       \<and> check_envelope nd response = Inl e3 \<longrightarrow>
        fst (uploadWikiFileHandler rt nd uwf (start w5)) = error_result rt e3"
    unfolding uploadWikiFileHandler_def
    by (intro impI, elim conjE, rule upload_envelope_rejected) simp_all
  have d: "dapi (DownloadWikiPageFile (download_wiki_page_file_input.wikiId dwf)
               (download_wiki_page_file_input.pageId dwf) (fileId dwf)) w6 = (Inr result, w6')
       \<and> download_wiki_page_file_input.savePath dwf = Some p \<and> p \<noteq> []
       \<and> \<not> endsWith_slash p \<and> \<not> existsSync nd p w6' \<and> existsSync nd (path_dirname nd p) w6'
       \<and> writeFileSync nd p (data result) w6' = (Inl e4, w6'') \<longrightarrow>
        fst (downloadWikiPageFileHandler rt nd dapi dwf (start w6)) = error_result rt e4"
    unfolding downloadWikiPageFileHandler_def
    by (intro impI, elim conjE) (simp add: download_write_failure)
  show ?thesis
    using a b c d
    by (simp only: defs tool_boundary_envelope simp_thms)
qed


lemma probe_lines_307:
  "split (CHR 0x0A) (trim (curl_write_out ''307'' ''https://files.example/reject''))
     = [''307'', ''https://files.example/reject'']"
  by (simp add: curl_write_out_def trim_def is_js_space_def)

lemma demo_rejected_envelope:
  "check_envelope (demo_node token probe) demo_rejected = Inl (Error ''quota exceeded'')"
  by (simp add: check_envelope_def demo_rejected_def demo_node_def)

theorem tool_boundary_envelopes_witness:
  "fst (updateTaskHandler demo_runtime demo_api_workflow_fails demo_convert
          (demo_args\<lparr>update_task_input.subject := Some ''S'', workflowId := Some ''working'', parentPostId := Some ''99''\<rparr>)
          (start 0))
     = error_result demo_runtime (Thrown ''workflow rejected'')
   \<and> fst (updateWikiPageHandler demo_runtime demo_client_fails demo_page_args (start 0))
     = error_result demo_runtime (Thrown ''500 Internal Server Error'')
   \<and> fst (uploadWikiFileHandler demo_runtime
            (demo_node (Some ''tok'') (curl_write_out ''307'' ''https://files.example/reject''))
            \<lparr>upload_wiki_file_input.wikiId = ''10'', upload_wiki_file_input.filePath = ''/tmp/a.txt''\<rparr>
            (start demo_files))
     = error_result demo_runtime (Error ''quota exceeded'')
   \<and> fst (downloadWikiPageFileHandler demo_runtime
            (demo_node (Some ''tok'') (curl_write_out ''307'' ''https://files.example/reject''))
            demo_download_api
            \<lparr>download_wiki_page_file_input.wikiId = ''123'', download_wiki_page_file_input.pageId = ''456'',
             fileId = ''789'', download_wiki_page_file_input.savePath = Some ''/readonly/x.bin''\<rparr>
            (start demo_files))
     = error_result demo_runtime (Thrown ''EACCES'')
   \<and> is_error_envelope (error_result demo_runtime (Thrown ''EACCES''))
   \<and> item_text (hd (tool_result.content (error_result demo_runtime (Thrown ''EACCES'')))) = Some ''Error: EACCES''"
proof -
  note T = tool_boundary_envelopes
          [where rt = demo_runtime and papi = demo_api_workflow_fails and convert = demo_convert
             and ut = "demo_args\<lparr>update_task_input.subject := Some ''S'', workflowId := Some ''working'', parentPostId := Some ''99''\<rparr>"
             and ?w1.0 = 0 and c = "SetTaskWorkflow ''1'' ''2'' ''working''" and ?e1.0 = "Thrown ''workflow rejected''"
             and client = demo_client_fails and uwp = demo_page_args and ?w3.0 = 0 and w3' = 1
             and ?e2.0 = "Thrown ''500 Internal Server Error''"
             and nd = "demo_node (Some ''tok'') (curl_write_out ''307'' ''https://files.example/reject'')"
             and uwf = "\<lparr>upload_wiki_file_input.wikiId = ''10'', upload_wiki_file_input.filePath = ''/tmp/a.txt''\<rparr>"
             and ?w5.0 = demo_files and w5' = demo_files and w5'' = demo_files
             and stdout = "curl_write_out ''307'' ''https://files.example/reject''"
             and url = "''https://files.example/reject''" and out = "''rejected''"
             and response = demo_rejected and ?e3.0 = "Error ''quota exceeded''"
             and dapi = demo_download_api
             and dwf = "\<lparr>download_wiki_page_file_input.wikiId = ''123'', download_wiki_page_file_input.pageId = ''456'',
                        fileId = ''789'', download_wiki_page_file_input.savePath = Some ''/readonly/x.bin''\<rparr>"
             and ?w6.0 = demo_files and w6' = demo_files and w6'' = demo_files
             and result = demo_download and p = "''/readonly/x.bin''" and ?e4.0 = "Thrown ''EACCES''"]
  have c1: "fst (updateTaskHandler demo_runtime demo_api_workflow_fails demo_convert
          (demo_args\<lparr>update_task_input.subject := Some ''S'', workflowId := Some ''working'', parentPostId := Some ''99''\<rparr>)
          (start 0))
     = error_result demo_runtime (Thrown ''workflow rejected'')"
    by (rule T [THEN conjunct1, THEN mp]) (simp add: demo_run_workflow_fails)
  have c2: "fst (updateWikiPageHandler demo_runtime demo_client_fails demo_page_args (start 0))
     = error_result demo_runtime (Thrown ''500 Internal Server Error'')"
    by (rule T [THEN conjunct2, THEN conjunct1, THEN mp]) (simp add: demo_client_fails_def)
  have c3: "fst (uploadWikiFileHandler demo_runtime
            (demo_node (Some ''tok'') (curl_write_out ''307'' ''https://files.example/reject''))
            \<lparr>upload_wiki_file_input.wikiId = ''10'', upload_wiki_file_input.filePath = ''/tmp/a.txt''\<rparr>
            (start demo_files))
     = error_result demo_runtime (Error ''quota exceeded'')"
    by (rule T [THEN conjunct2, THEN conjunct2, THEN conjunct1, THEN mp])
       (simp add: probe_lines_307 demo_rejected_envelope, simp add: demo_node_def demo_files_def str_truthy_def)
  have c4: "fst (downloadWikiPageFileHandler demo_runtime
            (demo_node (Some ''tok'') (curl_write_out ''307'' ''https://files.example/reject''))
            demo_download_api
            \<lparr>download_wiki_page_file_input.wikiId = ''123'', download_wiki_page_file_input.pageId = ''456'',
             fileId = ''789'', download_wiki_page_file_input.savePath = Some ''/readonly/x.bin''\<rparr>
            (start demo_files))
     = error_result demo_runtime (Thrown ''EACCES'')"
    by (rule T [THEN conjunct2, THEN conjunct2, THEN conjunct2, THEN conjunct1, THEN mp])
       (simp add: demo_node_def demo_files_def demo_download_api_def endsWith_slash_def)
  have c5: "is_error_envelope (error_result demo_runtime (Thrown ''EACCES''))
   \<and> item_text (hd (tool_result.content (error_result demo_runtime (Thrown ''EACCES'')))) = Some ''Error: EACCES''"
    by (simp add: error_result_def is_error_envelope_def demo_runtime_def)
  show ?thesis
    using c1 c2 c3 c4 c5 by simp
qed

end
